theory Spec2Isabelle
  imports Complex_Main "HOL-Library.Word"
begin

unbundle bit_operations_syntax

section \<open>Arithmetic of the kernel\<close>

text \<open>
  The kernel computes in C \<^verbatim>\<open>float\<close> and \<^verbatim>\<open>double\<close>, the binary32 and binary64
  formats of IEEE 754. A value is a finite real, an infinity or NaN; the type parameter
  is the precision of the format, 24 or 53 significand bits. Every operation computes
  the exact real result and rounds it to the format: to the nearest value, ties to the
  even significand, with gradual underflow below the smallest normal number and overflow
  to infinity; there is one rounding for each operation of the source. The sign of zero
  is not modelled. Only the results of operations are
  rounded: a value \<open>Fin x\<close> that the model is given stands for an input of the code
  only when \<open>x\<close> is a number of the format.
\<close>

datatype 'a fp = Fin real | PInf | NInf | NaN

type_synonym float = "24 fp"
type_synonym double = "53 fp"

definition pow2 :: "int \<Rightarrow> real" where
  "pow2 e = (if 0 \<le> e then 2 ^ nat e else 1 / 2 ^ nat (- e))"

text \<open>The largest exponent of the format with \<open>p\<close> significand bits.\<close>

definition emax :: "nat \<Rightarrow> int" where
  "emax p = (if p = 24 then 127 else 1023)"

text \<open>The exponent \<open>e\<close> with \<open>2\<^sup>e \<le> |x| < 2\<^sup>e\<^sup>+\<^sup>1\<close>, for \<open>x\<close> other than 0.\<close>

definition exponent :: "real \<Rightarrow> int" where
  "exponent x = \<lfloor>log 2 \<bar>x\<bar>\<rfloor>"

text \<open>The nearest integer, the even one of two that are equally near.\<close>

definition round_even :: "real \<Rightarrow> int" where
  "round_even m =
     (let f = \<lfloor>m\<rfloor>; d = m - of_int f
      in if d < 1 / 2 then f else if 1 / 2 < d then f + 1
         else if even f then f else f + 1)"

text \<open>
  The spacing of the format's numbers around \<open>x\<close>: one unit in the last of \<open>p\<close>
  places, and the spacing of the subnormal numbers below the smallest normal one.
\<close>

definition quantum :: "nat \<Rightarrow> real \<Rightarrow> real" where
  "quantum p x = pow2 (max (exponent x) (1 - emax p) - (int p - 1))"

definition rounded :: "nat \<Rightarrow> real \<Rightarrow> real" where
  "rounded p x = of_int (round_even (x / quantum p x)) * quantum p x"

definition rnd :: "'a::len itself \<Rightarrow> real \<Rightarrow> 'a fp" where
  "rnd T x =
     (if x = 0 then Fin 0
      else if pow2 (emax LENGTH('a) + 1) \<le> \<bar>rounded LENGTH('a) x\<bar>
      then (if 0 < x then PInf else NInf)
      else Fin (rounded LENGTH('a) x))"

instantiation fp :: (len) "{plus,minus,uminus,times,inverse,ord}"
begin

fun uminus_fp :: "'a fp \<Rightarrow> 'a fp" where
  "uminus_fp (Fin a) = Fin (- a)"
| "uminus_fp PInf = NInf"
| "uminus_fp NInf = PInf"
| "uminus_fp NaN = NaN"

fun plus_fp :: "'a fp \<Rightarrow> 'a fp \<Rightarrow> 'a fp" where
  "plus_fp (Fin a) (Fin b) = rnd TYPE('a) (a + b)"
| "plus_fp NaN y = NaN"
| "plus_fp x NaN = NaN"
| "plus_fp PInf NInf = NaN"
| "plus_fp NInf PInf = NaN"
| "plus_fp PInf y = PInf"
| "plus_fp NInf y = NInf"
| "plus_fp x PInf = PInf"
| "plus_fp x NInf = NInf"

definition minus_fp :: "'a fp \<Rightarrow> 'a fp \<Rightarrow> 'a fp" where
  "minus_fp x y = x + (- y)"

fun times_fp :: "'a fp \<Rightarrow> 'a fp \<Rightarrow> 'a fp" where
  "times_fp (Fin a) (Fin b) = rnd TYPE('a) (a * b)"
| "times_fp NaN y = NaN"
| "times_fp x NaN = NaN"
| "times_fp (Fin a) y = (if a = 0 then NaN else if 0 < a then y else - y)"
| "times_fp x (Fin b) = (if b = 0 then NaN else if 0 < b then x else - x)"
| "times_fp PInf y = y"
| "times_fp NInf y = - y"

fun inverse_fp :: "'a fp \<Rightarrow> 'a fp" where
  "inverse_fp (Fin a) = (if a \<noteq> 0 then rnd TYPE('a) (1 / a) else PInf)"
| "inverse_fp NaN = NaN"
| "inverse_fp x = Fin 0"

fun divide_fp :: "'a fp \<Rightarrow> 'a fp \<Rightarrow> 'a fp" where
  "divide_fp (Fin a) (Fin b) =
     (if b \<noteq> 0 then rnd TYPE('a) (a / b)
      else if a = 0 then NaN else if 0 < a then PInf else NInf)"
| "divide_fp NaN y = NaN"
| "divide_fp x NaN = NaN"
| "divide_fp (Fin a) y = Fin 0"
| "divide_fp x (Fin b) = (if 0 \<le> b then x else - x)"
| "divide_fp x y = NaN"

fun less_eq_fp :: "'a fp \<Rightarrow> 'a fp \<Rightarrow> bool" where
  "less_eq_fp (Fin a) (Fin b) = (a \<le> b)"
| "less_eq_fp NaN y = False"
| "less_eq_fp x NaN = False"
| "less_eq_fp NInf y = True"
| "less_eq_fp x PInf = True"
| "less_eq_fp x y = False"

fun less_fp :: "'a fp \<Rightarrow> 'a fp \<Rightarrow> bool" where
  "less_fp (Fin a) (Fin b) = (a < b)"
| "less_fp NaN y = False"
| "less_fp x NaN = False"
| "less_fp PInf y = False"
| "less_fp x NInf = False"
| "less_fp x y = True"

instance ..

end

text \<open>C's \<^verbatim>\<open>==\<close> on floating-point values: NaN equals nothing, itself included.\<close>

fun feq :: "'a fp \<Rightarrow> 'a fp \<Rightarrow> bool" where
  "feq NaN y = False"
| "feq x NaN = False"
| "feq x y = (x = y)"

fun fsqrt :: "'a::len fp \<Rightarrow> 'a fp" where
  "fsqrt (Fin a) = (if 0 \<le> a then rnd TYPE('a) (sqrt a) else NaN)"
| "fsqrt PInf = PInf"
| "fsqrt NInf = NaN"
| "fsqrt NaN = NaN"

text \<open>\<^verbatim>\<open>fminf\<close> of the C library: a NaN argument is ignored in favour of the other.\<close>

fun fminf :: "float \<Rightarrow> float \<Rightarrow> float" where
  "fminf NaN y = y"
| "fminf x NaN = x"
| "fminf x y = (if x \<le> y then x else y)"

definition FLT_MAX :: float where
  "FLT_MAX = Fin 340282346638528859811704183484516925440"

text \<open>The cast \<^verbatim>\<open>(double)\<close> of a \<^verbatim>\<open>float\<close>: every binary32 number is a binary64 number.\<close>

fun to_double :: "float \<Rightarrow> double" where
  "to_double (Fin a) = Fin a"
| "to_double PInf = PInf"
| "to_double NInf = NInf"
| "to_double NaN = NaN"

subsection \<open>Vectors\<close>

datatype float3 = Float3 float float float

definition make_float3 :: "float \<Rightarrow> float \<Rightarrow> float \<Rightarrow> float3" where
  "make_float3 x y z = Float3 x y z"

instantiation float3 :: "{plus,minus,uminus,times}"
begin

fun uminus_float3 :: "float3 \<Rightarrow> float3" where
  "uminus_float3 (Float3 x y z) = Float3 (- x) (- y) (- z)"

fun plus_float3 :: "float3 \<Rightarrow> float3 \<Rightarrow> float3" where
  "plus_float3 (Float3 x y z) (Float3 x' y' z') = Float3 (x + x') (y + y') (z + z')"

fun minus_float3 :: "float3 \<Rightarrow> float3 \<Rightarrow> float3" where
  "minus_float3 (Float3 x y z) (Float3 x' y' z') = Float3 (x - x') (y - y') (z - z')"

fun times_float3 :: "float3 \<Rightarrow> float3 \<Rightarrow> float3" where
  "times_float3 (Float3 x y z) (Float3 x' y' z') = Float3 (x * x') (y * y') (z * z')"

instance ..

end

text \<open>A scalar times a vector, a vector times a scalar, a vector over a scalar.\<close>

fun smul :: "float \<Rightarrow> float3 \<Rightarrow> float3" where
  "smul s (Float3 x y z) = Float3 (s * x) (s * y) (s * z)"

fun muls :: "float3 \<Rightarrow> float \<Rightarrow> float3" where
  "muls (Float3 x y z) s = Float3 (x * s) (y * s) (z * s)"

fun divs :: "float3 \<Rightarrow> float \<Rightarrow> float3" where
  "divs (Float3 x y z) s = Float3 (x / s) (y / s) (z / s)"

fun len_squared :: "float3 \<Rightarrow> float" where
  "len_squared (Float3 x y z) = x * x + y * y + z * z"

record float4 =
  f4_x :: float
  f4_y :: float
  f4_z :: float
  f4_w :: float

text \<open>The subscript \<^verbatim>\<open>node[i]\<close> on a \<^verbatim>\<open>float4\<close>, for the indices the kernel uses.\<close>

definition at4 :: "float4 \<Rightarrow> nat \<Rightarrow> float" where
  "at4 v i = (if i = 0 then f4_x v else if i = 1 then f4_y v
              else if i = 2 then f4_z v else f4_w v)"

section \<open>Data of the kernel\<close>

text \<open>
  The structures of \<^verbatim>\<open>kernel_types.h\<close> are not part of the excerpt; each record holds
  the fields that \<^verbatim>\<open>kernel_path_surface.h\<close> reads or writes. The radiance
  accumulator is modelled from the specification (section 3 and 4.4): a channel of
  visible radiance and the diagnostic channel of total, unshadowed light.
\<close>

typedecl VolumeStack
typedecl PathRadianceState

type_synonym BsdfEval = float3
type_synonym differential3 = "float3 \<times> float3"

record ShaderData =
  sd_P :: float3
  sd_N :: float3
  sd_Ng :: float3
  sd_time :: float
  sd_flag :: "32 word"
  sd_dP :: differential3
  sd_ray_length :: float

record ShaderClosure =
  sample_weight :: float

record LightSample =
  ls_pdf :: float
  ls_P :: float3
  ls_D :: float3
  ls_lamp :: int

record Ray =
  ray_P :: float3
  ray_D :: float3
  ray_t :: float
  ray_dP :: differential3
  ray_dD :: differential3
  ray_time :: float

record PathState =
  bounce :: int
  ray_pdf :: float
  min_ray_pdf :: float
  state_ray_t :: float
  denoising_feature_weight :: float
  rng_hash :: "32 word"
  state_flag :: "32 word"
  volume_stack :: VolumeStack

record PathRadiance =
  visible_radiance :: float3
  total_light :: float3

text \<open>
  \<^verbatim>\<open>KernelGlobals\<close>: the scene data the file reads (\<^verbatim>\<open>kernel_data.integrator\<close>, the
  texture \<^verbatim>\<open>__light_tree_nodes\<close>), and, as parameters, the constants and the functions
  of other kernel files that it calls. A function that writes through a pointer returns
  the written values. The arguments \<^verbatim>\<open>kg\<close> of these functions are dropped, and so are
  \<^verbatim>\<open>sd\<close> and \<^verbatim>\<open>state\<close> as outputs of the samplers, the emission and the shadow test:
  the file never reads them back.
\<close>

record KernelGlobals =
  splitting_threshold :: float
  light_tree_nodes :: "int \<Rightarrow> float4"
  float_as_int :: "float \<Rightarrow> int"
  update_parent_node :: "int \<Rightarrow> int \<times> int \<times> int"
  calc_node_importance :: "float3 \<Rightarrow> float3 \<Rightarrow> int \<Rightarrow> float"
  light_point_sample :: "float \<Rightarrow> float \<Rightarrow> float \<Rightarrow> float3 \<Rightarrow> int \<Rightarrow> int \<Rightarrow> LightSample"
  path_state_rng_light_termination :: "PathState \<Rightarrow> float"
  evaluate_bsdf_light :: "ShaderData \<Rightarrow> LightSample \<Rightarrow> BsdfEval"
  sample_nondegenerate :: "ShaderData \<Rightarrow> LightSample \<Rightarrow> PathState \<Rightarrow> float \<Rightarrow> bool"
  shadow_ray :: "ShaderData \<Rightarrow> LightSample \<Rightarrow> Ray"
  light_is_lamp :: "LightSample \<Rightarrow> bool"
  shadow_blocked :: "ShaderData \<Rightarrow> ShaderData \<Rightarrow> PathState \<Rightarrow> Ray \<Rightarrow> bool \<times> float3"
  LABEL_TRANSMIT :: "32 word"
  LABEL_TRANSPARENT :: "32 word"
  SD_BSDF :: "32 word"
  SD_HAS_ONLY_VOLUME :: "32 word"
  PRNG_BSDF_U :: int
  path_state_rng_2D :: "PathState \<Rightarrow> int \<Rightarrow> float \<times> float"
  path_branched_rng_2D :: "32 word \<Rightarrow> PathState \<Rightarrow> int \<Rightarrow> int \<Rightarrow> int \<Rightarrow> float \<times> float"
  shader_bsdf_sample ::
    "ShaderData \<Rightarrow> float \<Rightarrow> float \<Rightarrow> 32 word \<times> BsdfEval \<times> float3 \<times> differential3 \<times> float"
  shader_bsdf_sample_closure ::
    "ShaderData \<Rightarrow> ShaderClosure \<Rightarrow> float \<Rightarrow> float
       \<Rightarrow> 32 word \<times> BsdfEval \<times> float3 \<times> differential3 \<times> float"
  bsdf_eval_is_zero :: "BsdfEval \<Rightarrow> bool"
  path_radiance_bsdf_bounce ::
    "PathRadianceState \<Rightarrow> float3 \<Rightarrow> BsdfEval \<Rightarrow> float \<Rightarrow> int \<Rightarrow> 32 word
       \<Rightarrow> PathRadianceState \<times> float3"
  path_state_next :: "PathState \<Rightarrow> 32 word \<Rightarrow> PathState"
  path_state_volume_next :: "PathState \<Rightarrow> bool \<times> PathState"
  path_state_branch :: "PathState \<Rightarrow> int \<Rightarrow> int \<Rightarrow> PathState"
  ray_offset :: "float3 \<Rightarrow> float3 \<Rightarrow> float3"
  normalize :: "float3 \<Rightarrow> float3"
  kernel_volume_stack_enter_exit :: "ShaderData \<Rightarrow> VolumeStack \<Rightarrow> VolumeStack"

text \<open>The test \<^verbatim>\<open>label & FLAG\<close> of C: true when a common bit is set.\<close>

definition has_flag :: "32 word \<Rightarrow> 32 word \<Rightarrow> bool" where
  "has_flag v flag = (v AND flag \<noteq> 0)"

section \<open>Direct light connection\<close>

text \<open>
  Modelled from the spec: \<^verbatim>\<open>direct_emission\<close> (\<^verbatim>\<open>kernel_emission.h\<close>, not in the excerpt).
  Section 4.4: the product of BSDF and light is evaluated by the shading evaluator and
  the sample is tested for degeneracy; a sample that passes yields the shadow ray and the
  evaluation divided by the sample's PDF, which is the quantity the accumulation
  multiplies by throughput and scale.
\<close>

definition direct_emission ::
  "KernelGlobals \<Rightarrow> ShaderData \<Rightarrow> ShaderData \<Rightarrow> LightSample \<Rightarrow> PathState \<Rightarrow> float
     \<Rightarrow> (Ray \<times> BsdfEval \<times> bool) option" where
  "direct_emission kg sd emission_sd ls state terminate =
     (if sample_nondegenerate kg sd ls state terminate
      then Some (shadow_ray kg sd ls,
                 divs (evaluate_bsdf_light kg sd ls) (ls_pdf ls),
                 light_is_lamp kg ls)
      else None)"

text \<open>
  Modelled from the spec: \<^verbatim>\<open>path_radiance_accum_light\<close> (\<^verbatim>\<open>kernel_accumulate.h\<close>, not in
  the excerpt). Section 4.4: an unoccluded sample adds throughput times evaluation times
  transmittance to the visible radiance. Nothing else the specification states of it.
\<close>

definition path_radiance_accum_light ::
  "PathRadiance \<Rightarrow> PathState \<Rightarrow> float3 \<Rightarrow> BsdfEval \<Rightarrow> float3 \<Rightarrow> float \<Rightarrow> bool
     \<Rightarrow> PathRadiance" where
  "path_radiance_accum_light L state throughput bsdf_eval shadow shadow_fac is_lamp =
     L\<lparr>visible_radiance := visible_radiance L + throughput * bsdf_eval * shadow\<rparr>"

text \<open>
  Modelled from the spec: \<^verbatim>\<open>path_radiance_accum_total_light\<close> (\<^verbatim>\<open>kernel_accumulate.h\<close>,
  not in the excerpt). Section 4.4: an occluded sample records the unshadowed estimate
  in the diagnostic channel and leaves the visible radiance alone.
\<close>

definition path_radiance_accum_total_light ::
  "PathRadiance \<Rightarrow> PathState \<Rightarrow> float3 \<Rightarrow> BsdfEval \<Rightarrow> PathRadiance" where
  "path_radiance_accum_total_light L state throughput bsdf_eval =
     L\<lparr>total_light := total_light L + throughput * bsdf_eval\<rparr>"

text \<open>
  \<^verbatim>\<open>accum_light_contribution\<close>, lines 21 to 46. The radiance accumulator \<^verbatim>\<open>L\<close> is the
  one object it changes that a caller reads afterwards; the model returns it.
\<close>

definition accum_light_contribution ::
  "KernelGlobals \<Rightarrow> ShaderData \<Rightarrow> ShaderData \<Rightarrow> LightSample \<Rightarrow> PathState \<Rightarrow> PathRadiance
     \<Rightarrow> float \<Rightarrow> float3 \<Rightarrow> float \<Rightarrow> PathRadiance" where
  "accum_light_contribution kg sd emission_sd ls state L terminate throughput scale =
     (case direct_emission kg sd emission_sd ls state terminate of
        None \<Rightarrow> L
      | Some (light_ray, L_light, is_lamp) \<Rightarrow>
          (case shadow_blocked kg sd emission_sd state light_ray of
             (blocked, shadow) \<Rightarrow>
               if \<not> blocked
               then path_radiance_accum_light L state (muls throughput scale) L_light
                      shadow scale is_lamp
               else path_radiance_accum_total_light L state (muls throughput scale) L_light))"

section \<open>The split decision\<close>

text \<open>
  Lines 73 to 115 of \<^verbatim>\<open>split\<close>: the normalised variance, computed in binary64 from
  the squared radius and the squared distance. \<^verbatim>\<open>__float_as_int\<close> reinterprets the bits
  of a float; it is the parameter \<open>float_as_int\<close>.
\<close>

definition split_variance_normalized ::
  "KernelGlobals \<Rightarrow> double \<Rightarrow> double \<Rightarrow> int \<Rightarrow> double" where
  "split_variance_normalized kg radius_squared dist_squared node_offset =
     (let radius = fsqrt radius_squared;
          dist = fsqrt dist_squared;
          a = dist - radius;
          b = dist + radius;
          g_mean = Fin 1 / (a * b);
          g_mean_squared = g_mean * g_mean;
          a3 = a * a * a;
          b3 = b * b * b;
          g_variance = (b3 - a3) / (Fin 3 * (b - a) * a3 * b3) - g_mean_squared;
          node0 = light_tree_nodes kg node_offset;
          node3 = light_tree_nodes kg (node_offset + 3);
          energy = to_double (at4 node0 0);
          e_variance = to_double (at4 node3 3);
          num_emitters = rnd TYPE(53) (of_int (float_as_int kg (at4 node0 3)));
          num_emitters_squared = num_emitters * num_emitters;
          e_mean = energy / num_emitters;
          e_mean_squared = e_mean * e_mean;
          variance = (e_variance * (g_variance + g_mean_squared) +
                      e_mean_squared * g_variance) * num_emitters_squared
      in fsqrt (fsqrt (Fin 1 / (Fin 1 + fsqrt variance))))"

text \<open>
  The squared radius and squared distance of lines 59 to 68, computed in binary32 and
  then cast.
\<close>

definition node_radius_squared :: "KernelGlobals \<Rightarrow> int \<Rightarrow> double" where
  "node_radius_squared kg node_offset =
     (let node1 = light_tree_nodes kg (node_offset + 1);
          node2 = light_tree_nodes kg (node_offset + 2);
          bboxMin = make_float3 (at4 node1 0) (at4 node1 1) (at4 node1 2);
          bboxMax = make_float3 (at4 node1 3) (at4 node2 0) (at4 node2 1);
          centroid = smul (Fin 0.5) (bboxMax + bboxMin)
      in to_double (len_squared (bboxMax - centroid)))"

definition node_dist_squared :: "KernelGlobals \<Rightarrow> float3 \<Rightarrow> int \<Rightarrow> double" where
  "node_dist_squared kg P node_offset =
     (let node1 = light_tree_nodes kg (node_offset + 1);
          node2 = light_tree_nodes kg (node_offset + 2);
          bboxMin = make_float3 (at4 node1 0) (at4 node1 1) (at4 node1 2);
          bboxMax = make_float3 (at4 node1 3) (at4 node2 0) (at4 node2 1);
          centroid = smul (Fin 0.5) (bboxMax + bboxMin)
      in to_double (len_squared (centroid - P)))"

text \<open>\<^verbatim>\<open>split\<close>, lines 49 to 118.\<close>

definition split :: "KernelGlobals \<Rightarrow> float3 \<Rightarrow> int \<Rightarrow> bool" where
  "split kg P node_offset =
     (let threshold = to_double (splitting_threshold kg)
      in if feq threshold (Fin 0) then False
         else if feq threshold (Fin 1) then True
         else
           let radius_squared = node_radius_squared kg node_offset;
               dist_squared = node_dist_squared kg P node_offset
           in if dist_squared \<le> radius_squared then True
              else split_variance_normalized kg radius_squared dist_squared node_offset
                     < threshold)"

section \<open>Light tree traversal\<close>

text \<open>
  The traversal changes the radiance accumulator and two debugging counters through
  pointers; the model threads them as a record. The record also keeps a log, which the C
  code does not have: one entry for every invocation of the traversal, with the offset,
  the random number, the PDF factor and the split flag it was called with, and one entry
  for every call of \<^verbatim>\<open>accum_light_contribution\<close>, with the light sample passed. The log
  is never read by the model.
\<close>

datatype event = Enter int float float bool | Connect LightSample

record traversal =
  L :: PathRadiance
  num_lights :: int
  num_lights_fail :: int
  events :: "event list"

text \<open>
  \<^verbatim>\<open>accum_light_tree_contribution\<close>, lines 121 to 216. The recursion of the C function
  follows the offsets stored in the node table and ends only when it meets a leaf; the
  first argument of the model bounds the depth of the recursion, and \<open>None\<close> is the
  outcome of a descent that is deeper. Offsets are unbounded integers.
\<close>

fun accum_light_tree_contribution ::
  "nat \<Rightarrow> KernelGlobals \<Rightarrow> float \<Rightarrow> float \<Rightarrow> int \<Rightarrow> float \<Rightarrow> bool \<Rightarrow> float3
     \<Rightarrow> PathState \<Rightarrow> ShaderData \<Rightarrow> ShaderData \<Rightarrow> traversal \<Rightarrow> traversal option" where
  "accum_light_tree_contribution 0 kg randu randv offset pdf_factor can_split
     throughput state sd emission_sd t = None"
| "accum_light_tree_contribution (Suc depth) kg randu randv offset pdf_factor can_split
     throughput state sd emission_sd t =
     (let t = t\<lparr>events := events t @ [Enter offset randu pdf_factor can_split]\<rparr>;
          P = sd_P sd;
          N = sd_N sd;
          time = sd_time sd;
          bounce = bounce state
      in case update_parent_node kg offset of
        (secondChildOffset, distribution_id, num_emitters) \<Rightarrow>
          if secondChildOffset = - 1 then
            (if num_emitters = 1 then
               let t = t\<lparr>num_lights := num_lights t + 1\<rparr>;
                   ls = light_point_sample kg randu randv time P bounce distribution_id;
                   ls = ls\<lparr>ls_pdf := ls_pdf ls * pdf_factor\<rparr>
               in if feq (ls_pdf ls) (Fin 0) then Some t
                  else
                    let terminate = path_state_rng_light_termination kg state
                    in Some (t\<lparr>L := accum_light_contribution kg sd emission_sd ls state
                                       (L t) terminate throughput (Fin 1),
                                events := events t @ [Connect ls]\<rparr>)
             else Some t)
          else
            let child_offsetL = offset + 4;
                child_offsetR = 4 * secondChildOffset
            in if can_split \<and> split kg P offset then
                 (case accum_light_tree_contribution depth kg randu randv child_offsetL
                         pdf_factor True throughput state sd emission_sd t of
                    None \<Rightarrow> None
                  | Some t \<Rightarrow>
                      accum_light_tree_contribution depth kg randu randv child_offsetR
                        pdf_factor True throughput state sd emission_sd t)
               else
                 let I_L = calc_node_importance kg P N child_offsetL;
                     I_R = calc_node_importance kg P N child_offsetR
                 in if feq I_L (Fin 0) \<and> feq I_R (Fin 0)
                    then Some (t\<lparr>num_lights_fail := num_lights_fail t + 1\<rparr>)
                    else
                      let P_L = I_L / (I_L + I_R)
                      in if randu \<le> P_L
                         then accum_light_tree_contribution depth kg (randu / P_L) randv
                                child_offsetL (pdf_factor * P_L) False throughput state
                                sd emission_sd t
                         else accum_light_tree_contribution depth kg
                                ((randu * (I_L + I_R) - I_L) / I_R) randv
                                child_offsetR (pdf_factor * (Fin 1 - P_L)) False
                                throughput state sd emission_sd t)"

section \<open>Surface bounce\<close>

text \<open>
  The two bounce functions write the throughput, the path state, the radiance state and
  the ray through pointers; the model returns the C function's result together with
  these four. The kernel features \<^verbatim>\<open>__DENOISING_FEATURES__\<close>, \<^verbatim>\<open>__RAY_DIFFERENTIALS__\<close>,
  \<^verbatim>\<open>__OBJECT_MOTION__\<close>, \<^verbatim>\<open>__VOLUME__\<close> and \<^verbatim>\<open>__LAMP_MIS__\<close> are compiled in, as in the
  CPU kernel.
\<close>

type_synonym bounce_result = "bool \<times> float3 \<times> PathState \<times> PathRadianceState \<times> Ray"

text \<open>\<^verbatim>\<open>kernel_branched_path_surface_bounce\<close>, lines 369 to 435.\<close>

definition kernel_branched_path_surface_bounce ::
  "KernelGlobals \<Rightarrow> ShaderData \<Rightarrow> ShaderClosure \<Rightarrow> int \<Rightarrow> int \<Rightarrow> float3 \<Rightarrow> PathState
     \<Rightarrow> PathRadianceState \<Rightarrow> Ray \<Rightarrow> float \<Rightarrow> bounce_result" where
  "kernel_branched_path_surface_bounce kg sd sc sample num_samples throughput state
     L_state ray sum_sample_weight =
     (case path_branched_rng_2D kg (rng_hash state) state sample num_samples
             (PRNG_BSDF_U kg) of
        (bsdf_u, bsdf_v) \<Rightarrow>
      case shader_bsdf_sample_closure kg sd sc bsdf_u bsdf_v of
        (label, bsdf_eval, bsdf_omega_in, bsdf_domega_in, bsdf_pdf) \<Rightarrow>
      if feq bsdf_pdf (Fin 0) \<or> bsdf_eval_is_zero kg bsdf_eval
      then (False, throughput, state, L_state, ray)
      else
        case path_radiance_bsdf_bounce kg L_state throughput bsdf_eval bsdf_pdf
               (bounce state) label of
          (L_state, throughput) \<Rightarrow>
        let state = state\<lparr>denoising_feature_weight :=
                      denoising_feature_weight state *
                        (sample_weight sc /
                           (sum_sample_weight * rnd TYPE(24) (of_int num_samples)))\<rparr>;
            state = path_state_next kg state label;
            ray = ray\<lparr>ray_P := ray_offset kg (sd_P sd)
                              (if has_flag label (LABEL_TRANSMIT kg)
                               then - sd_Ng sd else sd_Ng sd)\<rparr>;
            ray = ray\<lparr>ray_D := normalize kg bsdf_omega_in\<rparr>;
            ray = ray\<lparr>ray_t := FLT_MAX\<rparr>;
            ray = ray\<lparr>ray_dP := sd_dP sd\<rparr>;
            ray = ray\<lparr>ray_dD := bsdf_domega_in\<rparr>;
            ray = ray\<lparr>ray_time := sd_time sd\<rparr>;
            state = (if has_flag label (LABEL_TRANSMIT kg)
                     then state\<lparr>volume_stack :=
                            kernel_volume_stack_enter_exit kg sd (volume_stack state)\<rparr>
                     else state);
            state = path_state_branch kg state sample num_samples;
            state = state\<lparr>min_ray_pdf := fminf bsdf_pdf FLT_MAX\<rparr>;
            state = state\<lparr>ray_pdf := bsdf_pdf\<rparr>;
            state = state\<lparr>state_ray_t := Fin 0\<rparr>
        in (True, throughput, state, L_state, ray))"

text \<open>\<^verbatim>\<open>kernel_path_surface_bounce\<close>, lines 485 to 571.\<close>

definition kernel_path_surface_bounce ::
  "KernelGlobals \<Rightarrow> ShaderData \<Rightarrow> float3 \<Rightarrow> PathState \<Rightarrow> PathRadianceState \<Rightarrow> Ray
     \<Rightarrow> bounce_result" where
  "kernel_path_surface_bounce kg sd throughput state L_state ray =
     (if has_flag (sd_flag sd) (SD_BSDF kg) then
        (case path_state_rng_2D kg state (PRNG_BSDF_U kg) of
           (bsdf_u, bsdf_v) \<Rightarrow>
         case shader_bsdf_sample kg sd bsdf_u bsdf_v of
           (label, bsdf_eval, bsdf_omega_in, bsdf_domega_in, bsdf_pdf) \<Rightarrow>
         if feq bsdf_pdf (Fin 0) \<or> bsdf_eval_is_zero kg bsdf_eval
         then (False, throughput, state, L_state, ray)
         else
           case path_radiance_bsdf_bounce kg L_state throughput bsdf_eval bsdf_pdf
                  (bounce state) label of
             (L_state, throughput) \<Rightarrow>
           let state = (if \<not> has_flag label (LABEL_TRANSPARENT kg)
                        then let state = state\<lparr>ray_pdf := bsdf_pdf\<rparr>;
                                 state = state\<lparr>state_ray_t := Fin 0\<rparr>
                             in state\<lparr>min_ray_pdf := fminf bsdf_pdf (min_ray_pdf state)\<rparr>
                        else state);
               state = path_state_next kg state label;
               ray = ray\<lparr>ray_P := ray_offset kg (sd_P sd)
                                 (if has_flag label (LABEL_TRANSMIT kg)
                                  then - sd_Ng sd else sd_Ng sd)\<rparr>;
               ray = ray\<lparr>ray_D := normalize kg bsdf_omega_in\<rparr>;
               ray = (if bounce state = 0
                      then ray\<lparr>ray_t := ray_t ray - sd_ray_length sd\<rparr>
                      else ray\<lparr>ray_t := FLT_MAX\<rparr>);
               ray = ray\<lparr>ray_dP := sd_dP sd\<rparr>;
               ray = ray\<lparr>ray_dD := bsdf_domega_in\<rparr>;
               state = (if has_flag label (LABEL_TRANSMIT kg)
                        then state\<lparr>volume_stack :=
                               kernel_volume_stack_enter_exit kg sd (volume_stack state)\<rparr>
                        else state)
           in (True, throughput, state, L_state, ray))
      else if has_flag (sd_flag sd) (SD_HAS_ONLY_VOLUME kg) then
        (case path_state_volume_next kg state of
           (ok, state) \<Rightarrow>
             if \<not> ok then (False, throughput, state, L_state, ray)
             else
               let ray = (if bounce state = 0
                          then ray\<lparr>ray_t := ray_t ray - sd_ray_length sd\<rparr>
                          else ray\<lparr>ray_t := FLT_MAX\<rparr>);
                   ray = ray\<lparr>ray_P := ray_offset kg (sd_P sd) (- sd_Ng sd)\<rparr>;
                   ray = ray\<lparr>ray_dP := sd_dP sd\<rparr>;
                   state = state\<lparr>volume_stack :=
                             kernel_volume_stack_enter_exit kg sd (volume_stack state)\<rparr>
               in (True, throughput, state, L_state, ray))
      else (False, throughput, state, L_state, ray))"

text \<open>
  The assumption on \<^verbatim>\<open>path_state_next\<close> (\<^verbatim>\<open>kernel_path_state.h\<close>, not in the excerpt) under
  which the PDF fields written before it is called survive the call.
\<close>

definition keeps_mis :: "KernelGlobals \<Rightarrow> bool" where
  "keeps_mis kg =
     (\<forall>state label. ray_pdf (path_state_next kg state label) = ray_pdf state \<and>
                    min_ray_pdf (path_state_next kg state label) = min_ray_pdf state)"

section \<open>Sample scenes\<close>

text \<open>
  Concrete kernel data on which the properties below are evaluated: a light tree of two
  leaves under a root at offset 0, the left leaf at offset 4 and the right leaf at
  offset 8, with the importances of the two leaves as parameters.
\<close>

definition zero3 :: float3 where
  "zero3 = Float3 (Fin 0) (Fin 0) (Fin 0)"

definition one3 :: float3 where
  "one3 = Float3 (Fin 1) (Fin 1) (Fin 1)"

definition two_leaf_nodes :: "int \<Rightarrow> int \<times> int \<times> int" where
  "two_leaf_nodes offset =
     (if offset = 0 then (2, 0, 2) else if offset = 4 then (- 1, 0, 1) else (- 1, 1, 1))"

definition sample_kg :: "float \<Rightarrow> float \<Rightarrow> KernelGlobals" where
  "sample_kg I_A I_B =
     \<lparr>splitting_threshold = Fin 0,
      light_tree_nodes = (\<lambda>i. \<lparr>f4_x = Fin 0, f4_y = Fin 0, f4_z = Fin 0, f4_w = Fin 0\<rparr>),
      float_as_int = (\<lambda>x. 2),
      update_parent_node = two_leaf_nodes,
      calc_node_importance = (\<lambda>P N offset. if offset = 4 then I_A else I_B),
      light_point_sample = (\<lambda>u v time P bounce i.
         \<lparr>ls_pdf = Fin 1, ls_P = zero3, ls_D = zero3, ls_lamp = i\<rparr>),
      path_state_rng_light_termination = (\<lambda>state. Fin 0),
      evaluate_bsdf_light = (\<lambda>sd ls. one3),
      sample_nondegenerate = (\<lambda>sd ls state terminate. True),
      shadow_ray = (\<lambda>sd ls. \<lparr>ray_P = sd_P sd, ray_D = ls_D ls, ray_t = Fin 1,
         ray_dP = (zero3, zero3), ray_dD = (zero3, zero3), ray_time = sd_time sd\<rparr>),
      light_is_lamp = (\<lambda>ls. True),
      shadow_blocked = (\<lambda>sd emission_sd state ray. (False, one3)),
      LABEL_TRANSMIT = 1,
      LABEL_TRANSPARENT = 32,
      SD_BSDF = 1,
      SD_HAS_ONLY_VOLUME = 2,
      PRNG_BSDF_U = 0,
      path_state_rng_2D = (\<lambda>state dimension. (Fin 0, Fin 0)),
      path_branched_rng_2D = (\<lambda>hash state branch num_branches dimension. (Fin 0, Fin 0)),
      shader_bsdf_sample = (\<lambda>sd u v. (2, one3, zero3, (zero3, zero3), u)),
      shader_bsdf_sample_closure = (\<lambda>sd sc u v. (2, one3, zero3, (zero3, zero3), u)),
      bsdf_eval_is_zero = (\<lambda>ev. ev = zero3),
      path_radiance_bsdf_bounce = (\<lambda>L_state throughput ev pdf bounce label.
         (L_state, throughput * divs ev pdf)),
      path_state_next = (\<lambda>state label. state\<lparr>bounce := bounce state + 1\<rparr>),
      path_state_volume_next = (\<lambda>state. (True, state)),
      path_state_branch = (\<lambda>state branch num_branches. state),
      ray_offset = (\<lambda>P Ng. P),
      normalize = (\<lambda>D. D),
      kernel_volume_stack_enter_exit = (\<lambda>sd stack. stack)\<rparr>"

definition sample_sd :: ShaderData where
  "sample_sd = \<lparr>sd_P = zero3, sd_N = one3, sd_Ng = one3, sd_time = Fin 0, sd_flag = 1,
      sd_dP = (zero3, zero3), sd_ray_length = Fin 1\<rparr>"

definition sample_state :: PathState where
  "sample_state = \<lparr>bounce = 0, ray_pdf = Fin 0, min_ray_pdf = Fin (1/2),
      state_ray_t = Fin 0, denoising_feature_weight = Fin 1, rng_hash = 0, state_flag = 0,
      volume_stack = undefined\<rparr>"

definition sample_ray :: Ray where
  "sample_ray = \<lparr>ray_P = zero3, ray_D = zero3, ray_t = Fin 1,
      ray_dP = (zero3, zero3), ray_dD = (zero3, zero3), ray_time = Fin 0\<rparr>"

definition empty_traversal :: traversal where
  "empty_traversal = \<lparr>L = \<lparr>visible_radiance = zero3, total_light = zero3\<rparr>,
      num_lights = 0, num_lights_fail = 0, events = []\<rparr>"

definition zero_pdf_kg :: KernelGlobals where
  "zero_pdf_kg = (sample_kg (Fin 3) (Fin 1))\<lparr>light_point_sample :=
      (\<lambda>u v time P bounce i. \<lparr>ls_pdf = Fin 0, ls_P = zero3, ls_D = zero3, ls_lamp = i\<rparr>)\<rparr>"

definition occluded_kg :: KernelGlobals where
  "occluded_kg = (sample_kg (Fin 3) (Fin 1))\<lparr>shadow_blocked :=
      (\<lambda>sd emission_sd state ray. (True, zero3))\<rparr>"

definition half_light :: LightSample where
  "half_light = \<lparr>ls_pdf = Fin (1/2), ls_P = one3, ls_D = one3, ls_lamp = 0\<rparr>"

definition dark :: PathRadiance where
  "dark = \<lparr>visible_radiance = zero3, total_light = zero3\<rparr>"

definition bounce_kg :: "32 word \<Rightarrow> KernelGlobals" where
  "bounce_kg label = (sample_kg (Fin 3) (Fin 1))\<lparr>
      shader_bsdf_sample := (\<lambda>sd u v. (label, one3, one3, (zero3, zero3), Fin 2)),
      shader_bsdf_sample_closure := (\<lambda>sd sc u v. (label, one3, one3, (zero3, zero3), Fin 2))\<rparr>"

definition unit_light :: "int \<Rightarrow> LightSample" where
  "unit_light i = \<lparr>ls_pdf = Fin 1, ls_P = zero3, ls_D = zero3, ls_lamp = i\<rparr>"

text \<open>
  A node whose bounding box is the cube of half width \<open>h\<close> around the origin, with
  energy 2, energy variance 1 and two emitters, under the splitting threshold 1/2. For
  \<open>h = 0\<close> the box is a point: two point lights at the same position.
\<close>

definition box_kg :: "real \<Rightarrow> KernelGlobals" where
  "box_kg h = (sample_kg (Fin 3) (Fin 1))\<lparr>
      splitting_threshold := Fin (1/2),
      light_tree_nodes := (\<lambda>i.
         if i = 0 then \<lparr>f4_x = Fin 2, f4_y = Fin 0, f4_z = Fin 0, f4_w = Fin 0\<rparr>
         else if i = 1 then \<lparr>f4_x = Fin (- h), f4_y = Fin (- h), f4_z = Fin (- h), f4_w = Fin h\<rparr>
         else if i = 2 then \<lparr>f4_x = Fin h, f4_y = Fin h, f4_z = Fin 0, f4_w = Fin 0\<rparr>
         else \<lparr>f4_x = Fin 0, f4_y = Fin 0, f4_z = Fin 0, f4_w = Fin 1\<rparr>)\<rparr>"

text \<open>
  A node whose bounding box reaches from \<open>(2\<^sup>2\<^sup>4 + 2, -3/2, 0)\<close> to
  \<open>(2\<^sup>2\<^sup>4 + 4, 3/2, 0)\<close>, with energy 2, energy variance 1 and two emitters, under the
  splitting threshold 1/4. All six coordinates are binary32 numbers; the sum of the two
  first coordinates, \<open>2\<^sup>2\<^sup>5 + 6\<close>, is not.
\<close>

definition rounding_kg :: KernelGlobals where
  "rounding_kg = (sample_kg (Fin 3) (Fin 1))\<lparr>
      splitting_threshold := Fin (1/4),
      light_tree_nodes := (\<lambda>i.
         if i = 0 then \<lparr>f4_x = Fin 2, f4_y = Fin 0, f4_z = Fin 0, f4_w = Fin 0\<rparr>
         else if i = 1 then \<lparr>f4_x = Fin 16777218, f4_y = Fin (- (3/2)), f4_z = Fin 0,
                               f4_w = Fin 16777220\<rparr>
         else if i = 2 then \<lparr>f4_x = Fin (3/2), f4_y = Fin 0, f4_z = Fin 0, f4_w = Fin 0\<rparr>
         else \<lparr>f4_x = Fin 0, f4_y = Fin 0, f4_z = Fin 0, f4_w = Fin 1\<rparr>)\<rparr>"

section \<open>The bounding sphere of the specification\<close>

text \<open>
  The specification describes the test of lines 59 to 71 geometrically: the centre of
  the sphere is the midpoint of the bounding box, its squared radius is the squared
  distance from the centre to the maximum corner, and a point is strictly inside when
  its squared distance from the centre is smaller. \<open>spec_inside_bounding_sphere\<close> is
  that description, in real numbers, for finite coordinates; it is compared below with
  what \<^verbatim>\<open>split\<close> computes in binary32.
\<close>

fun real3 :: "float3 \<Rightarrow> (real \<times> real \<times> real) option" where
  "real3 (Float3 (Fin x) (Fin y) (Fin z)) = Some (x, y, z)"
| "real3 v = None"

fun squared_distance :: "real \<times> real \<times> real \<Rightarrow> real \<times> real \<times> real \<Rightarrow> real" where
  "squared_distance (x, y, z) (x', y', z') =
     (x - x') * (x - x') + (y - y') * (y - y') + (z - z') * (z - z')"

fun midpoint3 :: "real \<times> real \<times> real \<Rightarrow> real \<times> real \<times> real \<Rightarrow> real \<times> real \<times> real" where
  "midpoint3 (x, y, z) (x', y', z') = ((x + x') / 2, (y + y') / 2, (z + z') / 2)"

definition spec_inside_bounding_sphere :: "KernelGlobals \<Rightarrow> float3 \<Rightarrow> int \<Rightarrow> bool" where
  "spec_inside_bounding_sphere kg P node_offset =
     (let node1 = light_tree_nodes kg (node_offset + 1);
          node2 = light_tree_nodes kg (node_offset + 2)
      in case (real3 (make_float3 (at4 node1 0) (at4 node1 1) (at4 node1 2)),
               real3 (make_float3 (at4 node1 3) (at4 node2 0) (at4 node2 1)),
               real3 P) of
           (Some bboxMin, Some bboxMax, Some p) \<Rightarrow>
             squared_distance p (midpoint3 bboxMin bboxMax)
               < squared_distance bboxMax (midpoint3 bboxMin bboxMax)
         | _ \<Rightarrow> False)"

section \<open>Paths of the stochastic traversal\<close>

text \<open>
  What a log records: the invocations, each with its offset, random number and PDF
  factor, and the light samples passed to \<^verbatim>\<open>accum_light_contribution\<close>.
\<close>

fun enters :: "event list \<Rightarrow> (int \<times> float \<times> float) list" where
  "enters [] = []"
| "enters (Enter offset randu pdf_factor can_split # es) =
     (offset, randu, pdf_factor) # enters es"
| "enters (Connect ls # es) = enters es"









text \<open>
  What a finished traversal logged: the offsets it entered, the random number and the
  PDF factor of the last invocation, and the light samples it connected.
\<close>

definition visited :: "traversal \<Rightarrow> int list" where
  "visited t = map fst (enters (events t))"




section \<open>Rounding\<close>

text \<open>
  Bounds on the rounding of a real number, and the rounded values that the concrete
  evaluations below meet.
\<close>

lemma pow2_powr: "pow2 e = 2 powr (of_int e)"
  by (simp add: pow2_def powr_realpow [symmetric] powr_minus field_simps)

lemma exponent_eq:
  assumes "pow2 k \<le> \<bar>x\<bar>" and "\<bar>x\<bar> < pow2 (k + 1)"
  shows "exponent x = k"
proof -
  have pos: "0 < \<bar>x\<bar>" using assms(1) by (smt (verit) pow2_powr powr_gt_zero)
  show ?thesis
    unfolding exponent_def
    using assms pos by (simp add: floor_log_eq_powr_iff pow2_powr)
qed

lemma pow2_pos [simp]: "0 < pow2 e"
  by (simp add: pow2_powr)

lemma pow2_add: "pow2 (a + b) = pow2 a * pow2 b"
  by (simp add: pow2_powr powr_add)

lemma pow2_mono: "a \<le> b \<Longrightarrow> pow2 a \<le> pow2 b"
  by (simp add: pow2_powr)

lemma pow2_nat: "0 \<le> e \<Longrightarrow> pow2 e = of_int (2 ^ nat e)"
  by (simp add: pow2_def)

lemma exponent_bounds:
  assumes "x \<noteq> 0"
  shows "pow2 (exponent x) \<le> \<bar>x\<bar>" and "\<bar>x\<bar> < pow2 (exponent x + 1)"
proof -
  have pos: "0 < \<bar>x\<bar>" using assms by simp
  have "exponent x = \<lfloor>log 2 \<bar>x\<bar>\<rfloor>" by (simp add: exponent_def)
  then have "2 powr (of_int (exponent x)) \<le> \<bar>x\<bar> \<and> \<bar>x\<bar> < 2 powr (of_int (exponent x + 1))"
    using floor_log_eq_powr_iff [of "\<bar>x\<bar>" 2 "exponent x"] pos by simp
  then show "pow2 (exponent x) \<le> \<bar>x\<bar>" and "\<bar>x\<bar> < pow2 (exponent x + 1)"
    by (simp_all add: pow2_powr)
qed

lemma exponent_le:
  assumes "x \<noteq> 0" and "\<bar>x\<bar> \<le> pow2 j"
  shows "exponent x \<le> j"
proof (rule ccontr)
  assume "\<not> exponent x \<le> j"
  then have "j + 1 \<le> exponent x" by simp
  then have "pow2 (j + 1) \<le> pow2 (exponent x)" by (rule pow2_mono)
  also have "\<dots> \<le> \<bar>x\<bar>" using assms(1) by (rule exponent_bounds)
  finally have "pow2 (j + 1) \<le> pow2 j" using assms(2) by simp
  moreover have "pow2 j < pow2 (j + 1)" by (simp add: pow2_powr)
  ultimately show False by simp
qed

lemma exponent_ge:
  assumes "x \<noteq> 0" and "pow2 k \<le> \<bar>x\<bar>"
  shows "k \<le> exponent x"
proof (rule ccontr)
  assume "\<not> k \<le> exponent x"
  then have "exponent x + 1 \<le> k" by simp
  then have "pow2 (exponent x + 1) \<le> pow2 k" by (rule pow2_mono)
  moreover have "\<bar>x\<bar> < pow2 (exponent x + 1)" using assms(1) by (rule exponent_bounds)
  ultimately show False using assms(2) by simp
qed

lemma round_even_ge: "of_int N \<le> m \<Longrightarrow> N \<le> round_even m"
proof -
  assume "of_int N \<le> m"
  then have "N \<le> \<lfloor>m\<rfloor>" by (simp add: le_floor_iff)
  then show ?thesis by (simp add: round_even_def Let_def)
qed

lemma round_even_le: "m \<le> of_int N \<Longrightarrow> round_even m \<le> N"
proof -
  assume le: "m \<le> of_int N"
  then have f: "\<lfloor>m\<rfloor> \<le> N" by (simp add: floor_le_iff)
  show ?thesis
  proof (cases "m - of_int \<lfloor>m\<rfloor> < 1 / 2")
    case True
    with f show ?thesis by (simp add: round_even_def Let_def)
  next
    case False
    then have "of_int \<lfloor>m\<rfloor> < m" by simp
    with le have "of_int \<lfloor>m\<rfloor> < (of_int N :: real)" by simp
    then have "\<lfloor>m\<rfloor> < N" by simp
    then have "\<lfloor>m\<rfloor> + 1 \<le> N" by simp
    with f show ?thesis by (simp add: round_even_def Let_def)
  qed
qed

lemma round_even_abs_le: "\<bar>m\<bar> \<le> of_int N \<Longrightarrow> \<bar>round_even m\<bar> \<le> N"
proof -
  assume a: "\<bar>m\<bar> \<le> of_int N"
  then have "m \<le> of_int N" "of_int (- N) \<le> m" by simp_all
  then have "round_even m \<le> N" "- N \<le> round_even m"
    by (simp_all only: round_even_le round_even_ge)
  then show ?thesis by simp
qed

lemma quantum_pos [simp]: "0 < quantum p x"
  by (simp add: quantum_def)

lemma quantum_nonneg [simp]: "0 \<le> quantum p x"
  by (rule less_imp_le) simp

lemma quantum_abs [simp]: "\<bar>quantum p x\<bar> = quantum p x"
  by (rule abs_of_pos) simp

lemma rounded_sign:
  shows "0 \<le> x \<Longrightarrow> 0 \<le> rounded p x" and "x \<le> 0 \<Longrightarrow> rounded p x \<le> 0"
proof -
  assume "0 \<le> x"
  then have "of_int 0 \<le> x / quantum p x" by simp
  then have "0 \<le> round_even (x / quantum p x)" by (rule round_even_ge)
  then show "0 \<le> rounded p x" by (simp add: rounded_def)
next
  assume "x \<le> 0"
  then have "x / quantum p x \<le> of_int 0" by (simp add: divide_le_0_iff)
  then have "round_even (x / quantum p x) \<le> 0" by (rule round_even_le)
  then show "rounded p x \<le> 0" by (simp add: rounded_def mult_le_0_iff)
qed

lemma rounded_abs_le:
  assumes "x \<noteq> 0" and "\<bar>x\<bar> \<le> pow2 j" and "1 - emax p \<le> j" and "0 < p"
  shows "\<bar>rounded p x\<bar> \<le> pow2 j"
proof -
  define E where "E = max (exponent x) (1 - emax p)"
  have "exponent x \<le> j" using assms(1,2) by (rule exponent_le)
  with assms(3) have Ej: "E \<le> j" by (simp add: E_def)
  define n where "n = j - E + (int p - 1)"
  have n0: "0 \<le> n" using Ej assms(4) by (simp add: n_def)
  have q: "quantum p x = pow2 (E - (int p - 1))" by (simp add: quantum_def E_def)
  have "pow2 j = pow2 (n + (E - (int p - 1)))" by (simp add: n_def)
  also have "\<dots> = pow2 n * quantum p x" by (simp only: pow2_add q)
  also have "pow2 n = of_int (2 ^ nat n)" using n0 by (rule pow2_nat)
  finally have j: "pow2 j = of_int (2 ^ nat n) * quantum p x" .
  have "\<bar>x / quantum p x\<bar> = \<bar>x\<bar> / quantum p x" by simp
  also have "\<dots> \<le> of_int (2 ^ nat n)"
    using assms(2) j by (simp add: field_simps)
  finally have "\<bar>round_even (x / quantum p x)\<bar> \<le> 2 ^ nat n" by (rule round_even_abs_le)
  then have "\<bar>of_int (round_even (x / quantum p x)) :: real\<bar> \<le> of_int (2 ^ nat n)"
    by (metis of_int_abs of_int_le_iff)
  then have "\<bar>rounded p x\<bar> \<le> of_int (2 ^ nat n) * quantum p x"
    by (simp add: rounded_def abs_mult mult_right_mono)
  with j show ?thesis by simp
qed

lemma rounded_abs_ge:
  assumes "x \<noteq> 0" and "pow2 k \<le> \<bar>x\<bar>" and "1 - emax p \<le> k" and "0 < p"
  shows "pow2 k \<le> \<bar>rounded p x\<bar>"
proof -
  have ke: "k \<le> exponent x" using assms(1,2) by (rule exponent_ge)
  with assms(3) have "max (exponent x) (1 - emax p) = exponent x" by simp
  then have q: "quantum p x = pow2 (exponent x - (int p - 1))"
    by (simp only: quantum_def)
  have n0: "0 \<le> int p - 1" using assms(4) by simp
  have "pow2 (exponent x) = pow2 ((int p - 1) + (exponent x - (int p - 1)))" by simp
  also have "\<dots> = pow2 (int p - 1) * quantum p x" by (simp only: pow2_add q)
  also have "pow2 (int p - 1) = of_int (2 ^ nat (int p - 1))" using n0 by (rule pow2_nat)
  finally have e: "pow2 (exponent x) = of_int (2 ^ nat (int p - 1)) * quantum p x" .
  have x: "pow2 (exponent x) \<le> \<bar>x\<bar>" using assms(1) by (rule exponent_bounds)
  have "pow2 (exponent x) \<le> \<bar>rounded p x\<bar>"
  proof (cases "0 < x")
    case True
    with x e have "of_int (2 ^ nat (int p - 1)) \<le> x / quantum p x"
      by (simp add: field_simps)
    then have "2 ^ nat (int p - 1) \<le> round_even (x / quantum p x)" by (rule round_even_ge)
    then have "(of_int (2 ^ nat (int p - 1)) :: real) \<le> of_int (round_even (x / quantum p x))"
      by (simp only: of_int_le_iff)
    then have "of_int (2 ^ nat (int p - 1)) * quantum p x \<le> rounded p x"
      by (simp add: rounded_def mult_right_mono)
    with e show ?thesis by simp
  next
    case False
    with assms(1) have neg: "x < 0" by simp
    with x e have "x / quantum p x \<le> of_int (- (2 ^ nat (int p - 1)))"
      by (simp add: field_simps)
    then have "round_even (x / quantum p x) \<le> - (2 ^ nat (int p - 1))" by (rule round_even_le)
    then have "(of_int (round_even (x / quantum p x)) :: real) \<le> of_int (- (2 ^ nat (int p - 1)))"
      by (simp only: of_int_le_iff)
    then have "of_int (round_even (x / quantum p x)) * quantum p x
        \<le> (of_int (- (2 ^ nat (int p - 1))) :: real) * quantum p x"
      by (rule mult_right_mono) simp
    then have "rounded p x \<le> - (of_int (2 ^ nat (int p - 1)) * quantum p x)"
      by (simp add: rounded_def)
    with e have "rounded p x \<le> - pow2 (exponent x)" by simp
    then show ?thesis by simp
  qed
  moreover have "pow2 k \<le> pow2 (exponent x)" using ke by (rule pow2_mono)
  ultimately show ?thesis by simp
qed

lemma rnd_zero [simp]: "rnd T 0 = Fin 0"
  by (simp add: rnd_def)

lemmas rnd_eval = rnd_def rounded_def quantum_def pow2_def emax_def round_even_def Let_def

lemma rnd24_1: "rnd TYPE(24) (1) = Fin (1)"
  by (simp add: rnd_eval exponent_eq [of 0])

lemma rnd24_2: "rnd TYPE(24) (2) = Fin (2)"
  by (simp add: rnd_eval exponent_eq [of 1])

lemma rnd24_3: "rnd TYPE(24) (3) = Fin (3)"
  by (simp add: rnd_eval exponent_eq [of 1])

lemma rnd24_4: "rnd TYPE(24) (4) = Fin (4)"
  by (simp add: rnd_eval exponent_eq [of 2])

lemma rnd24_6: "rnd TYPE(24) (6) = Fin (6)"
  by (simp add: rnd_eval exponent_eq [of 2])

lemma rnd24_m2: "rnd TYPE(24) (- 2) = Fin (- 2)"
  by (simp add: rnd_eval exponent_eq [of 1])

lemma rnd24_1_2: "rnd TYPE(24) (1 / 2) = Fin (1 / 2)"
  by (simp add: rnd_eval exponent_eq [of "- 1"])

lemma rnd24_m1_2: "rnd TYPE(24) (- (1 / 2)) = Fin (- (1 / 2))"
  by (simp add: rnd_eval exponent_eq [of "- 1"])

lemma rnd24_1_4: "rnd TYPE(24) (1 / 4) = Fin (1 / 4)"
  by (simp add: rnd_eval exponent_eq [of "- 2"])

lemma rnd24_3_4: "rnd TYPE(24) (3 / 4) = Fin (3 / 4)"
  by (simp add: rnd_eval exponent_eq [of "- 1"])

lemma rnd24_9_4: "rnd TYPE(24) (9 / 4) = Fin (9 / 4)"
  by (simp add: rnd_eval exponent_eq [of 1])

lemma rnd24_3_2: "rnd TYPE(24) (3 / 2) = Fin (3 / 2)"
  by (simp add: rnd_eval exponent_eq [of 0])

lemma rnd24_1_3: "rnd TYPE(24) (1 / 3) = Fin (11184811 / 33554432)"
  by (simp add: rnd_eval exponent_eq [of "- 2"])

lemma rnd24_11184811_33554432: "rnd TYPE(24) (11184811 / 33554432) = Fin (11184811 / 33554432)"
  by (simp add: rnd_eval exponent_eq [of "- 2"])

lemma rnd24_33554438: "rnd TYPE(24) (33554438) = Fin (33554440)"
  by (simp add: rnd_eval exponent_eq [of 25])

lemma rnd24_16777220: "rnd TYPE(24) (16777220) = Fin (16777220)"
  by (simp add: rnd_eval exponent_eq [of 24])

lemma rnd24_33554440: "rnd TYPE(24) (33554440) = Fin (33554440)"
  by (simp add: rnd_eval exponent_eq [of 25])

lemma rnd24_13421773_100663296: "rnd TYPE(24) (13421773 / 100663296) = Fin (8947849 / 67108864)"
  by (simp add: rnd_eval exponent_eq [of "- 3"])

lemma rnd24_7549747_2097152: "rnd TYPE(24) (7549747 / 2097152) = Fin (7549747 / 2097152)"
  by (simp add: rnd_eval exponent_eq [of 1])

lemma rnd24_1258291_2097152: "rnd TYPE(24) (1258291 / 2097152) = Fin (1258291 / 2097152)"
  by (simp add: rnd_eval exponent_eq [of "- 1"])

lemma rnd53_2: "rnd TYPE(53) (2) = Fin (2)"
  by (simp add: rnd_eval exponent_eq [of 1])

lemma rnd53_4: "rnd TYPE(53) (4) = Fin (4)"
  by (simp add: rnd_eval exponent_eq [of 2])

lemma rnd53_8: "rnd TYPE(53) (8) = Fin (8)"
  by (simp add: rnd_eval exponent_eq [of 3])

lemma rnd53_1_4: "rnd TYPE(53) (1 / 4) = Fin (1 / 4)"
  by (simp add: rnd_eval exponent_eq [of "- 2"])

lemma rnd53_1_16: "rnd TYPE(53) (1 / 16) = Fin (1 / 16)"
  by (simp add: rnd_eval exponent_eq [of "- 4"])

lemma rnd53_1_2: "rnd TYPE(53) (1 / 2) = Fin (1 / 2)"
  by (simp add: rnd_eval exponent_eq [of "- 1"])

lemma rnd53_7_2: "rnd TYPE(53) (7 / 2) = Fin (7 / 2)"
  by (simp add: rnd_eval exponent_eq [of 1])

lemma rnd53_7_4: "rnd TYPE(53) (7 / 4) = Fin (7 / 4)"
  by (simp add: rnd_eval exponent_eq [of 0])

lemma rnd53_1_8: "rnd TYPE(53) (1 / 8) = Fin (1 / 8)"
  by (simp add: rnd_eval exponent_eq [of "- 3"])

lemma rnd53_49_4: "rnd TYPE(53) (49 / 4) = Fin (49 / 4)"
  by (simp add: rnd_eval exponent_eq [of 3])

lemma rnd53_343_8: "rnd TYPE(53) (343 / 8) = Fin (343 / 8)"
  by (simp add: rnd_eval exponent_eq [of 5])

lemma rnd53_171_4: "rnd TYPE(53) (171 / 4) = Fin (171 / 4)"
  by (simp add: rnd_eval exponent_eq [of 5])

lemma rnd53_3: "rnd TYPE(53) (3) = Fin (3)"
  by (simp add: rnd_eval exponent_eq [of 1])

lemma rnd53_9: "rnd TYPE(53) (9) = Fin (9)"
  by (simp add: rnd_eval exponent_eq [of 3])

lemma rnd53_9_8: "rnd TYPE(53) (9 / 8) = Fin (9 / 8)"
  by (simp add: rnd_eval exponent_eq [of 0])

lemma rnd53_3087_64: "rnd TYPE(53) (3087 / 64) = Fin (3087 / 64)"
  by (simp add: rnd_eval exponent_eq [of 5])

lemma rnd53_1: "rnd TYPE(53) (1) = Fin (1)"
  by (simp add: rnd_eval exponent_eq [of 0])

lemmas rnd_values =
  rnd24_1 rnd24_2 rnd24_3 rnd24_4 rnd24_6 rnd24_m2
  rnd24_1_2 rnd24_m1_2 rnd24_1_4 rnd24_3_4 rnd24_9_4 rnd24_3_2
  rnd24_1_3 rnd24_11184811_33554432 rnd24_33554438 rnd24_16777220 rnd24_33554440 rnd24_13421773_100663296
  rnd24_7549747_2097152 rnd24_1258291_2097152 rnd53_2 rnd53_4 rnd53_8 rnd53_1_4
  rnd53_1_16 rnd53_1_2 rnd53_7_2 rnd53_7_4 rnd53_1_8 rnd53_49_4
  rnd53_343_8 rnd53_171_4 rnd53_3 rnd53_9 rnd53_9_8 rnd53_3087_64
  rnd53_1

lemma rnd24_1_10: "rnd TYPE(24) (1 / 10) = Fin (13421773 / 134217728)"
  by (simp add: rnd_eval exponent_eq [of "-4"])

lemma rnd24_9_10: "rnd TYPE(24) (9 / 10) = Fin (7549747 / 8388608)"
  by (simp add: rnd_eval exponent_eq [of "-1"])

lemma rnd24_3_5: "rnd TYPE(24) (3 / 5) = Fin (5033165 / 8388608)"
  by (simp add: rnd_eval exponent_eq [of "-1"])

lemma feq_zero [simp]: "feq x (Fin 0) = (x = Fin 0)"
  by (cases x) auto

lemma feq_one [simp]: "feq x (Fin 1) = (x = Fin 1)"
  by (cases x) auto

lemma pow2_le_iff: "pow2 a \<le> pow2 b \<longleftrightarrow> a \<le> b"
  by (simp add: pow2_powr)

lemma rnd_abs_le:
  assumes "\<bar>x\<bar> \<le> pow2 j" and "1 - emax LENGTH('a) \<le> j" and "j \<le> emax LENGTH('a)"
  shows "\<exists>y. rnd TYPE('a::len) x = Fin y \<and> \<bar>y\<bar> \<le> pow2 j \<and> (0 \<le> x \<longrightarrow> 0 \<le> y)"
proof (cases "x = 0")
  case True
  then show ?thesis using less_imp_le [OF pow2_pos [of j]] by simp
next
  case False
  have "\<bar>rounded LENGTH('a) x\<bar> \<le> pow2 j"
    using False assms(1,2) by (rule rounded_abs_le) simp
  moreover have "pow2 j < pow2 (emax LENGTH('a) + 1)"
    using assms(3) by (simp add: pow2_powr)
  ultimately have "rnd TYPE('a) x = Fin (rounded LENGTH('a) x)"
    using False by (simp add: rnd_def)
  with \<open>\<bar>rounded LENGTH('a) x\<bar> \<le> pow2 j\<close> rounded_sign(1) [of x "LENGTH('a)"]
  show ?thesis by blast
qed

lemma rnd_between:
  assumes "pow2 k \<le> x" and "x \<le> pow2 j" and "1 - emax LENGTH('a) \<le> k"
    and "j \<le> emax LENGTH('a)"
  shows "\<exists>y. rnd TYPE('a::len) x = Fin y \<and> pow2 k \<le> y \<and> y \<le> pow2 j"
proof -
  have pos: "0 < x" using assms(1) pow2_pos [of k] by linarith
  then have nz: "x \<noteq> 0" and ab: "\<bar>x\<bar> = x" by simp_all
  have "pow2 k \<le> pow2 j" using assms(1,2) by simp
  then have kj: "k \<le> j" by (simp only: pow2_le_iff)
  have r0: "0 \<le> rounded LENGTH('a) x" using pos by (simp add: rounded_sign)
  have "\<bar>rounded LENGTH('a) x\<bar> \<le> pow2 j"
    using nz assms(2,3) kj ab by (intro rounded_abs_le) simp_all
  with r0 have hi: "rounded LENGTH('a) x \<le> pow2 j" by simp
  have "pow2 k \<le> \<bar>rounded LENGTH('a) x\<bar>"
    using nz assms(1,3) ab by (intro rounded_abs_ge) simp_all
  with r0 have lo: "pow2 k \<le> rounded LENGTH('a) x" by simp
  have "pow2 j < pow2 (emax LENGTH('a) + 1)"
    using assms(4) by (simp add: pow2_powr)
  with hi r0 have "rnd TYPE('a) x = Fin (rounded LENGTH('a) x)"
    using nz by (simp add: rnd_def)
  with lo hi show ?thesis by blast
qed

lemma rnd53_3_2: "rnd TYPE(53) (3 / 2) = Fin (3 / 2)"
  by (simp add: rnd_eval exponent_eq [of 0])

lemma double_abs_le:
  assumes "\<bar>x\<bar> \<le> pow2 j" and "- 1022 \<le> j" and "j \<le> 1023"
  shows "\<exists>y. rnd TYPE(53) x = Fin y \<and> \<bar>y\<bar> \<le> pow2 j \<and> (0 \<le> x \<longrightarrow> 0 \<le> y)"
  using assms by (intro rnd_abs_le) (simp_all add: emax_def)

lemma double_between:
  assumes "pow2 k \<le> x" and "x \<le> pow2 j" and "- 1022 \<le> k" and "j \<le> 1023"
  shows "\<exists>y. rnd TYPE(53) x = Fin y \<and> pow2 k \<le> y \<and> y \<le> pow2 j"
  using assms by (intro rnd_between) (simp_all add: emax_def)

lemma sqrt_4: "sqrt 4 = (2::real)"
  using real_sqrt_abs [of 2] by simp

lemma sqrt_9_4: "sqrt (9 / 4) = (3 / 2::real)"
  using real_sqrt_abs [of "3 / 2"] by (simp add: power2_eq_square)

lemma rounding_score:
  "split_variance_normalized rounding_kg (Fin (9 / 4)) (Fin 4) 0 = NaN \<or>
   (\<exists>s. split_variance_normalized rounding_kg (Fin (9 / 4)) (Fin 4) 0 = Fin s \<and> 1 / 2 \<le> s)"
proof -
  have radius: "fsqrt (Fin (9 / 4) :: double) = Fin (3 / 2)"
    by (simp add: sqrt_9_4 rnd53_3_2)
  have dist: "fsqrt (Fin 4 :: double) = Fin 2"
    by (simp add: sqrt_4 rnd_values)
  have a: "(Fin 2 - Fin (3 / 2) :: double) = Fin (1 / 2)"
    by (simp add: minus_fp_def rnd_values)
  have b: "(Fin 2 + Fin (3 / 2) :: double) = Fin (7 / 2)"
    by (simp add: rnd_values)
  have ab: "(Fin (1 / 2) * Fin (7 / 2) :: double) = Fin (7 / 4)"
    by (simp add: rnd_values)
  obtain g where g: "rnd TYPE(53) (4 / 7) = Fin g" "1 / 2 \<le> g" "g \<le> 1"
    using double_between [of "- 1" "4 / 7" 0] by (auto simp: pow2_def)
  have gm: "(Fin 1 / Fin (7 / 4) :: double) = Fin g"
    using g(1) by simp
  have "1 / 4 \<le> g * g" using g(2) mult_mono [of "1 / 2" g "1 / 2" g] by simp
  moreover have "g * g \<le> 1" using g(2,3) mult_mono [of g 1 g 1] by simp
  ultimately obtain h where h: "rnd TYPE(53) (g * g) = Fin h" "1 / 4 \<le> h" "h \<le> 1"
    using double_between [of "- 2" "g * g" 0] by (auto simp: pow2_def)
  have gms: "(Fin g * Fin g :: double) = Fin h"
    using h(1) by simp
  have a3: "(Fin (1 / 2) * Fin (1 / 2) * Fin (1 / 2) :: double) = Fin (1 / 8)"
    by (simp add: rnd_values)
  have b3: "(Fin (7 / 2) * Fin (7 / 2) * Fin (7 / 2) :: double) = Fin (343 / 8)"
    by (simp add: rnd_values)
  have num: "(Fin (343 / 8) - Fin (1 / 8) :: double) = Fin (171 / 4)"
    by (simp add: minus_fp_def rnd_values)
  have ba: "(Fin (7 / 2) - Fin (1 / 2) :: double) = Fin 3"
    by (simp add: minus_fp_def rnd_values)
  have den: "(Fin 3 * Fin 3 * Fin (1 / 8) * Fin (343 / 8) :: double) = Fin (3087 / 64)"
    by (simp add: rnd_values)
  obtain qv where qv: "rnd TYPE(53) (304 / 343) = Fin qv" "1 / 2 \<le> qv" "qv \<le> 1"
    using double_between [of "- 1" "304 / 343" 0] by (auto simp: pow2_def)
  have quot: "(Fin (171 / 4) / Fin (3087 / 64) :: double) = Fin qv"
    using qv(1) by simp
  have "\<bar>qv - h\<bar> \<le> 1" using qv(2,3) h(2,3) by simp
  then obtain w where w: "rnd TYPE(53) (qv - h) = Fin w" "\<bar>w\<bar> \<le> 1"
    using double_abs_le [of "qv - h" 0] by (auto simp: pow2_def)
  have gv: "(Fin qv - Fin h :: double) = Fin w"
    using w(1) by (simp add: minus_fp_def)
  have energy: "to_double (at4 (light_tree_nodes rounding_kg 0) 0) = Fin 2"
    by (simp add: rounding_kg_def at4_def)
  have e_variance: "to_double (at4 (light_tree_nodes rounding_kg (0 + 3)) 3) = Fin 1"
    by (simp add: rounding_kg_def at4_def)
  have num_emitters:
    "rnd TYPE(53) (of_int (float_as_int rounding_kg (at4 (light_tree_nodes rounding_kg 0) 3)))
       = Fin 2"
    by (simp add: rounding_kg_def sample_kg_def rnd_values)
  have nsq: "(Fin 2 * Fin 2 :: double) = Fin 4"
    by (simp add: rnd_values)
  have e_mean: "(Fin 2 / Fin 2 :: double) = Fin 1"
    by (simp add: rnd_values)
  have ems: "(Fin 1 * Fin 1 :: double) = Fin 1"
    by (simp add: rnd_values)
  have "\<bar>w + h\<bar> \<le> 2" using w(2) h(2,3) by simp
  then obtain t1 where t1: "rnd TYPE(53) (w + h) = Fin t1" "\<bar>t1\<bar> \<le> 2"
    using double_abs_le [of "w + h" 1] by (auto simp: pow2_def)
  have s1: "(Fin w + Fin h :: double) = Fin t1"
    using t1(1) by simp
  obtain t2 where t2: "rnd TYPE(53) t1 = Fin t2" "\<bar>t2\<bar> \<le> 2"
    using double_abs_le [of t1 1] t1(2) by (auto simp: pow2_def)
  have s2: "(Fin 1 * Fin t1 :: double) = Fin t2"
    using t2(1) by simp
  obtain t3 where t3: "rnd TYPE(53) w = Fin t3" "\<bar>t3\<bar> \<le> 1"
    using double_abs_le [of w 0] w(2) by (auto simp: pow2_def)
  have s3: "(Fin 1 * Fin w :: double) = Fin t3"
    using t3(1) by simp
  have "\<bar>t2 + t3\<bar> \<le> 4" using t2(2) t3(2) by simp
  then obtain t4 where t4: "rnd TYPE(53) (t2 + t3) = Fin t4" "\<bar>t4\<bar> \<le> 4"
    using double_abs_le [of "t2 + t3" 2] by (auto simp: pow2_def)
  have s4: "(Fin t2 + Fin t3 :: double) = Fin t4"
    using t4(1) by simp
  have "\<bar>t4 * 4\<bar> \<le> 16" using t4(2) by simp
  then obtain var where var: "rnd TYPE(53) (t4 * 4) = Fin var" "\<bar>var\<bar> \<le> 16"
    using double_abs_le [of "t4 * 4" 4] by (auto simp: pow2_def)
  have s5: "(Fin t4 * Fin 4 :: double) = Fin var"
    using var(1) by simp
  have unfolded: "split_variance_normalized rounding_kg (Fin (9 / 4)) (Fin 4) 0
      = fsqrt (fsqrt (Fin 1 / (Fin 1 + fsqrt (Fin var))))"
    unfolding split_variance_normalized_def Let_def
    by (simp only: radius dist a b ab gm gms a3 b3 num ba den quot gv energy e_variance
        num_emitters nsq e_mean ems s1 s2 s3 s4 s5)
  show ?thesis
  proof (cases "0 \<le> var")
    case False
    then show ?thesis by (simp add: unfolded)
  next
    case True
    have "sqrt var \<le> 4" using var(2) True by (intro real_le_lsqrt) simp_all
    moreover have "0 \<le> sqrt var" using True by simp
    ultimately obtain s where s: "rnd TYPE(53) (sqrt var) = Fin s" "0 \<le> s" "s \<le> 4"
      using double_abs_le [of "sqrt var" 2] by (auto simp: pow2_def)
    obtain u where u: "rnd TYPE(53) (1 + s) = Fin u" "1 \<le> u" "u \<le> 8"
      using double_between [of 0 "1 + s" 3] s(2,3) by (auto simp: pow2_def)
    have "1 / 8 \<le> 1 / u" "1 / u \<le> 1" using u(2,3) by (simp_all add: field_simps)
    then obtain x where x: "rnd TYPE(53) (1 / u) = Fin x" "1 / 8 \<le> x" "x \<le> 1"
      using double_between [of "- 3" "1 / u" 0] by (auto simp: pow2_def)
    have "(1 / 4) ^ 2 \<le> x" using x(2) by (simp add: power2_eq_square)
    then have "1 / 4 \<le> sqrt x" by (metis real_le_rsqrt)
    moreover have "sqrt x \<le> 1" using x(3) by simp
    ultimately obtain y where y: "rnd TYPE(53) (sqrt x) = Fin y" "1 / 4 \<le> y" "y \<le> 1"
      using double_between [of "- 2" "sqrt x" 0] by (auto simp: pow2_def)
    have "(1 / 2) ^ 2 \<le> y" using y(2) by (simp add: power2_eq_square)
    then have "1 / 2 \<le> sqrt y" by (metis real_le_rsqrt)
    moreover have "sqrt y \<le> 1" using y(3) by simp
    ultimately obtain z where z: "rnd TYPE(53) (sqrt y) = Fin z" "1 / 2 \<le> z" "z \<le> 1"
      using double_between [of "- 1" "sqrt y" 0] by (auto simp: pow2_def)
    have upos: "u \<noteq> 0" "0 \<le> x" "0 \<le> y" using u(2) x(2) y(2) by simp_all
    have "split_variance_normalized rounding_kg (Fin (9 / 4)) (Fin 4) 0 = Fin z"
      using True s(1) u(1) x(1) y(1) z(1) upos by (simp add: unfolded)
    with z(2) show ?thesis by blast
  qed
qed

lemma fp_less_imp_le: "(x::'a::len fp) < y \<Longrightarrow> x \<le> y"
  by (cases x; cases y) auto

subsection \<open>Overflow and underflow\<close>

text \<open>
  The arithmetic at its ends: twice the largest binary32 number is infinite, a product
  below half the smallest subnormal number is zero, and a subnormal result is rounded
  to the subnormal spacing. With both importances at the largest binary32 number their
  sum is infinite, \<open>P_L\<close> is zero, and the draw 1/2 goes right, rescaled to infinity.
\<close>

lemma rnd24_overflow: "rnd TYPE(24) 680564693277057719623408366969033850880 = PInf"
  by (simp add: rnd_eval exponent_eq [of 128])

lemma fp_overflow: "FLT_MAX + FLT_MAX = PInf"
  by (simp add: FLT_MAX_def rnd24_overflow)

lemma rnd24_underflow: "rnd TYPE(24) (1 / 2 ^ 200) = Fin 0"
  by (simp add: rnd_eval exponent_eq [of "-200"])

lemma fp_underflow: "(Fin (1 / 2 ^ 100) :: float) * Fin (1 / 2 ^ 100) = Fin 0"
proof -
  have "(1 / 2 ^ 100 :: real) * (1 / 2 ^ 100) = 1 / 2 ^ 200"
    by (simp add: power_add [symmetric])
  then show ?thesis by (simp only: times_fp.simps rnd24_underflow)
qed

lemma rnd24_subnormal: "rnd TYPE(24) (3 / 2 ^ 150) = Fin (1 / 2 ^ 148)"
  by (simp add: rnd_eval exponent_eq [of "-149"])

lemma overflow_goes_right:
  "map_option events
     (accum_light_tree_contribution (Suc (Suc 0)) (sample_kg FLT_MAX FLT_MAX) (Fin (1/2))
        (Fin (1/2)) 0 (Fin 1) True one3 sample_state sample_sd sample_sd empty_traversal)
     = Some [Enter 0 (Fin (1/2)) (Fin 1) True,
             Enter 8 PInf (Fin 1) False,
             Connect (unit_light 1)]"
  by (simp add: sample_kg_def two_leaf_nodes_def split_def empty_traversal_def
      unit_light_def minus_fp_def Let_def rnd_values fp_overflow)
    (simp add: FLT_MAX_def rnd_values)

section \<open>Properties\<close>

subsection \<open>PDF factor along the path of a traversal\<close>

lemma enters_append: "enters (xs @ ys) = enters xs @ enters ys"
  by (induction xs rule: enters.induct) auto






















lemma two_leaf_draws:
  "map_option visited
     (accum_light_tree_contribution (Suc (Suc 0)) (sample_kg (Fin 1) (Fin 2)) (Fin u)
        (Fin (1/2)) 0 (Fin 1) True one3 sample_state sample_sd sample_sd empty_traversal)
     = Some (if u \<le> 11184811 / 33554432 then [0, 4] else [0, 8])"
  by (simp add: visited_def sample_kg_def two_leaf_nodes_def split_def
      empty_traversal_def unit_light_def minus_fp_def Let_def rnd_values enters_append)




subsection \<open>Split decision\<close>

text \<open>
  Claim C4. Whatever the shading point and the node, \<^verbatim>\<open>split\<close> answers false when the
  configured splitting threshold is 0 and true when it is 1.
\<close>

theorem split_threshold_short_circuit:
  "split (kg\<lparr>splitting_threshold := Fin 0\<rparr>) P node_offset = False \<and>
   split (kg\<lparr>splitting_threshold := Fin 1\<rparr>) P node_offset = True"
  by (simp add: split_def)

text \<open>
  Claim C6, evaluated where the code departs from it. For a node whose bounding box is a
  single point, seen from a shading point at distance 2 (outside the bounding sphere,
  whose radius is 0), the interval of distances is \<open>[2, 2]\<close>, the geometric variance
  is \<open>0 / 0\<close> and the normalised variance is NaN; \<^verbatim>\<open>split\<close> then answers false.
\<close>

theorem split_score_nan_on_point_cluster:
  "node_radius_squared (box_kg 0) 0 = Fin 0 \<and>
   node_dist_squared (box_kg 0) (Float3 (Fin 2) (Fin 0) (Fin 0)) 0 = Fin 4 \<and>
   \<not> (Fin 4 \<le> Fin 0) \<and>
   split_variance_normalized (box_kg 0) (Fin 0) (Fin 4) 0 = NaN \<and>
   split (box_kg 0) (Float3 (Fin 2) (Fin 0) (Fin 0)) 0 = False"
proof -
  have r: "node_radius_squared (box_kg 0) 0 = Fin 0"
    by (simp add: node_radius_squared_def box_kg_def at4_def make_float3_def minus_fp_def
        rnd_values)
  have d: "node_dist_squared (box_kg 0) (Float3 (Fin 2) (Fin 0) (Fin 0)) 0 = Fin 4"
    by (simp add: node_dist_squared_def box_kg_def at4_def make_float3_def minus_fp_def
        rnd_values)
  have s: "sqrt 4 = (2::real)" using real_sqrt_abs [of 2] by simp
  have v: "split_variance_normalized (box_kg 0) (Fin 0) (Fin 4) 0 = NaN"
    by (simp add: split_variance_normalized_def Let_def minus_fp_def s box_kg_def
        sample_kg_def at4_def rnd_values)
  have t: "splitting_threshold (box_kg 0) = Fin (1/2)" by (simp add: box_kg_def)
  show ?thesis using r d v t by (simp add: split_def Let_def)
qed

text \<open>
  Claim C5, evaluated where the code departs from it. In the node of \<open>rounding_kg\<close> the
  exact midpoint of the box has first coordinate \<open>2\<^sup>2\<^sup>4 + 3\<close>, so the exact squared
  radius is 13/4 and the point \<open>(2\<^sup>2\<^sup>4 + 2, 0, 0)\<close> is strictly inside the sphere, at
  squared distance 1. In binary32 the sum of the corners rounds to \<open>2\<^sup>2\<^sup>5 + 8\<close>, the
  centroid is the maximum corner's \<open>2\<^sup>2\<^sup>4 + 4\<close>, the squared radius is 9/4 and the squared
  distance is 4: the test of line 69 fails, the normalised variance is not below the
  threshold 1/4, and \<^verbatim>\<open>split\<close> answers false.
\<close>

theorem split_inside_bounding_sphere_counterexample:
  "Fin 0 < splitting_threshold rounding_kg \<and>
   splitting_threshold rounding_kg < Fin 1 \<and>
   spec_inside_bounding_sphere rounding_kg (Float3 (Fin 16777218) (Fin 0) (Fin 0)) 0 \<and>
   split rounding_kg (Float3 (Fin 16777218) (Fin 0) (Fin 0)) 0 = False"
proof -
  have t: "splitting_threshold rounding_kg = Fin (1 / 4)"
    by (simp add: rounding_kg_def)
  have i: "spec_inside_bounding_sphere rounding_kg (Float3 (Fin 16777218) (Fin 0) (Fin 0)) 0"
    by (simp add: spec_inside_bounding_sphere_def rounding_kg_def at4_def make_float3_def)
  have r: "node_radius_squared rounding_kg 0 = Fin (9 / 4)"
    by (simp add: node_radius_squared_def rounding_kg_def at4_def make_float3_def minus_fp_def
        rnd_values)
  have d: "node_dist_squared rounding_kg (Float3 (Fin 16777218) (Fin 0) (Fin 0)) 0 = Fin 4"
    by (simp add: node_dist_squared_def rounding_kg_def at4_def make_float3_def minus_fp_def
        rnd_values)
  have "\<not> split_variance_normalized rounding_kg (Fin (9 / 4)) (Fin 4) 0 < Fin (1 / 4)"
    using rounding_score by auto
  then have "split rounding_kg (Float3 (Fin 16777218) (Fin 0) (Fin 0)) 0 = False"
    by (simp add: split_def Let_def t r d)
  with t i show ?thesis by simp
qed

text \<open>
  Claim C5, as the code has it. For a splitting threshold strictly between 0 and 1,
  \<^verbatim>\<open>split\<close> answers true at every shading point whose squared distance from the
  centroid is smaller than the squared radius, both as lines 66 to 68 compute them in
  binary32, whatever the threshold and the rest of the node.
\<close>

theorem split_inside_bounding_sphere:
  assumes "Fin 0 < splitting_threshold kg" and "splitting_threshold kg < Fin 1"
    and "node_dist_squared kg P node_offset < node_radius_squared kg node_offset"
  shows "split kg P node_offset = True"
proof -
  from assms(1) have "to_double (splitting_threshold kg) \<noteq> Fin 0"
    by (cases "splitting_threshold kg") auto
  with fp_less_imp_le [OF assms(3)] show ?thesis
    by (simp add: split_def Let_def)
qed

theorem split_inside_bounding_sphere_witness:
  "node_radius_squared (box_kg 1) 0 = Fin 3 \<and>
   node_dist_squared (box_kg 1) (Float3 (Fin (1/2)) (Fin 0) (Fin 0)) 0 = Fin (1/4) \<and>
   split (box_kg 1) (Float3 (Fin (1/2)) (Fin 0) (Fin 0)) 0 = True"
proof -
  have r: "node_radius_squared (box_kg 1) 0 = Fin 3"
    by (simp add: node_radius_squared_def box_kg_def at4_def make_float3_def minus_fp_def
        rnd_values)
  have d: "node_dist_squared (box_kg 1) (Float3 (Fin (1/2)) (Fin 0) (Fin 0)) 0 = Fin (1/4)"
    by (simp add: node_dist_squared_def box_kg_def at4_def make_float3_def minus_fp_def
        rnd_values)
  have t: "splitting_threshold (box_kg 1) = Fin (1/2)" by (simp add: box_kg_def)
  from split_inside_bounding_sphere [of "box_kg 1" "Float3 (Fin (1/2)) (Fin 0) (Fin 0)" 0] r d t
  show ?thesis by simp
qed

subsection \<open>Steps of the traversal, connection and bounce\<close>

text \<open>
  Claim C3, evaluated where the code departs from it. On the tree of two leaves with
  importances 1 and 1 the draw 1/2 meets \<open>randu \<le> P_L\<close> with equality, goes left and
  is rescaled to 1, which is not below 1. With importances 0 and 1 the draw 0 goes left
  as well and is rescaled to 0 / 0.
\<close>

theorem rescaled_random_number_leaves_range:
  "map_option events
     (accum_light_tree_contribution (Suc (Suc 0)) (sample_kg (Fin 1) (Fin 1)) (Fin (1/2))
        (Fin (1/2)) 0 (Fin 1) True one3 sample_state sample_sd sample_sd empty_traversal)
     = Some [Enter 0 (Fin (1/2)) (Fin 1) True,
             Enter 4 (Fin 1) (Fin (1/2)) False,
             Connect ((unit_light 0)\<lparr>ls_pdf := Fin (1/2)\<rparr>)] \<and>
   \<not> (Fin 1 < Fin 1) \<and>
   map_option events
     (accum_light_tree_contribution (Suc (Suc 0)) (sample_kg (Fin 0) (Fin 1)) (Fin 0)
        (Fin (1/2)) 0 (Fin 1) True one3 sample_state sample_sd sample_sd empty_traversal)
     = Some [Enter 0 (Fin 0) (Fin 1) True, Enter 4 NaN (Fin 0) False]"
  by (simp add: sample_kg_def two_leaf_nodes_def split_def empty_traversal_def
      unit_light_def minus_fp_def Let_def rnd_values)

text \<open>
  Claim C2, evaluated where the code departs from it. With importances 1 and 2 the
  quotient 1/3 rounds up to 11184811/33554432 in binary32; the draw of that value is
  larger than 1/3, and the traversal descends left with it, rescaled to 1. With
  importances 3 and 1 and the draw 7549747/8388608, which is 0.9 in binary32, the
  traversal descends right with the draw rescaled to 1258291/2097152, which is not
  0.6 in binary32.
\<close>

theorem stochastic_child_choice_counterexample:
  "(1 / (1 + 2) :: real) < 11184811 / 33554432 \<and>
   map_option events
     (accum_light_tree_contribution (Suc (Suc 0)) (sample_kg (Fin 1) (Fin 2))
        (Fin (11184811 / 33554432)) (Fin (1/2)) 0 (Fin 1) True one3 sample_state sample_sd
        sample_sd empty_traversal)
     = Some [Enter 0 (Fin (11184811 / 33554432)) (Fin 1) True,
             Enter 4 (Fin 1) (Fin (11184811 / 33554432)) False,
             Connect ((unit_light 0)\<lparr>ls_pdf := Fin (11184811 / 33554432)\<rparr>)] \<and>
   rnd TYPE(24) (9 / 10) = Fin (7549747 / 8388608) \<and>
   map_option events
     (accum_light_tree_contribution (Suc (Suc 0)) (sample_kg (Fin 3) (Fin 1))
        (Fin (7549747 / 8388608)) (Fin (1/2)) 0 (Fin 1) True one3 sample_state sample_sd
        sample_sd empty_traversal)
     = Some [Enter 0 (Fin (7549747 / 8388608)) (Fin 1) True,
             Enter 8 (Fin (1258291 / 2097152)) (Fin (1/4)) False,
             Connect ((unit_light 1)\<lparr>ls_pdf := Fin (1/4)\<rparr>)] \<and>
   rnd TYPE(24) (3 / 5) \<noteq> Fin (1258291 / 2097152) \<and>
   Fin (3 / 5) \<noteq> (Fin (1258291 / 2097152) :: float)"
proof -
  have a: "map_option events
     (accum_light_tree_contribution (Suc (Suc 0)) (sample_kg (Fin 1) (Fin 2))
        (Fin (11184811 / 33554432)) (Fin (1/2)) 0 (Fin 1) True one3 sample_state sample_sd
        sample_sd empty_traversal)
     = Some [Enter 0 (Fin (11184811 / 33554432)) (Fin 1) True,
             Enter 4 (Fin 1) (Fin (11184811 / 33554432)) False,
             Connect ((unit_light 0)\<lparr>ls_pdf := Fin (11184811 / 33554432)\<rparr>)]"
    by (simp add: sample_kg_def two_leaf_nodes_def split_def empty_traversal_def
        unit_light_def minus_fp_def Let_def rnd_values)
  have b: "map_option events
     (accum_light_tree_contribution (Suc (Suc 0)) (sample_kg (Fin 3) (Fin 1))
        (Fin (7549747 / 8388608)) (Fin (1/2)) 0 (Fin 1) True one3 sample_state sample_sd
        sample_sd empty_traversal)
     = Some [Enter 0 (Fin (7549747 / 8388608)) (Fin 1) True,
             Enter 8 (Fin (1258291 / 2097152)) (Fin (1/4)) False,
             Connect ((unit_light 1)\<lparr>ls_pdf := Fin (1/4)\<rparr>)]"
    by (simp add: sample_kg_def two_leaf_nodes_def split_def empty_traversal_def
        unit_light_def minus_fp_def Let_def rnd_values)
  have c: "(1 / (1 + 2) :: real) < 11184811 / 33554432" by simp
  have d: "rnd TYPE(24) (9 / 10) = Fin (7549747 / 8388608)" by (rule rnd24_9_10)
  have e: "rnd TYPE(24) (3 / 5) \<noteq> Fin (1258291 / 2097152)" by (simp add: rnd24_3_5)
  have f: "Fin (3 / 5) \<noteq> (Fin (1258291 / 2097152) :: float)" by simp
  show ?thesis by (intro conjI; fact)
qed

text \<open>
  Claim C2, as the code has it. At an interior node that is not split, with child
  importances not both zero, the traversal forms \<open>P_L = I_L / (I_L + I_R)\<close> in binary32;
  when \<open>randu \<le> P_L\<close> it continues in the left child with the random number
  \<open>randu / P_L\<close> and the PDF factor times \<open>P_L\<close>, and otherwise in the right child with
  \<open>(randu * (I_L + I_R) - I_L) / I_R\<close> and the factor times \<open>1 - P_L\<close>, every operation
  rounded to binary32; the split flag is off from there on. On the tree of two leaves
  with importances 3 and 1 the draw 13421773/134217728, which is 0.1 in binary32, goes
  left and becomes 8947849/67108864, and the draw 7549747/8388608, which is 0.9 in
  binary32, goes right and becomes 1258291/2097152.
\<close>

theorem stochastic_child_choice:
  "(update_parent_node kg offset = (secondChildOffset, distribution_id, num_emitters) \<and>
    secondChildOffset \<noteq> - 1 \<and>
    \<not> (can_split \<and> split kg (sd_P sd) offset) \<and>
    I_L = calc_node_importance kg (sd_P sd) (sd_N sd) (offset + 4) \<and>
    I_R = calc_node_importance kg (sd_P sd) (sd_N sd) (4 * secondChildOffset) \<and>
    \<not> (feq I_L (Fin 0) \<and> feq I_R (Fin 0)) \<and>
    P_L = I_L / (I_L + I_R)
    \<longrightarrow> accum_light_tree_contribution (Suc depth) kg randu randv offset pdf_factor
          can_split throughput state sd emission_sd t
        = (if randu \<le> P_L
           then accum_light_tree_contribution depth kg (randu / P_L) randv (offset + 4)
                  (pdf_factor * P_L) False throughput state sd emission_sd
                  (t\<lparr>events := events t @ [Enter offset randu pdf_factor can_split]\<rparr>)
           else accum_light_tree_contribution depth kg ((randu * (I_L + I_R) - I_L) / I_R)
                  randv (4 * secondChildOffset) (pdf_factor * (Fin 1 - P_L)) False
                  throughput state sd emission_sd
                  (t\<lparr>events := events t @ [Enter offset randu pdf_factor can_split]\<rparr>))) \<and>
   map_option events
     (accum_light_tree_contribution (Suc (Suc 0)) (sample_kg (Fin 3) (Fin 1))
        (Fin (13421773 / 134217728)) (Fin (1/2)) 0 (Fin 1) True one3 sample_state sample_sd
        sample_sd empty_traversal)
     = Some [Enter 0 (Fin (13421773 / 134217728)) (Fin 1) True,
             Enter 4 (Fin (8947849 / 67108864)) (Fin (3/4)) False,
             Connect ((unit_light 0)\<lparr>ls_pdf := Fin (3/4)\<rparr>)] \<and>
   map_option events
     (accum_light_tree_contribution (Suc (Suc 0)) (sample_kg (Fin 3) (Fin 1))
        (Fin (7549747 / 8388608)) (Fin (1/2)) 0 (Fin 1) True one3 sample_state sample_sd
        sample_sd empty_traversal)
     = Some [Enter 0 (Fin (7549747 / 8388608)) (Fin 1) True,
             Enter 8 (Fin (1258291 / 2097152)) (Fin (1/4)) False,
             Connect ((unit_light 1)\<lparr>ls_pdf := Fin (1/4)\<rparr>)]"
proof (intro conjI impI)
  show "map_option events
     (accum_light_tree_contribution (Suc (Suc 0)) (sample_kg (Fin 3) (Fin 1))
        (Fin (13421773 / 134217728)) (Fin (1/2)) 0 (Fin 1) True one3 sample_state sample_sd
        sample_sd empty_traversal)
     = Some [Enter 0 (Fin (13421773 / 134217728)) (Fin 1) True,
             Enter 4 (Fin (8947849 / 67108864)) (Fin (3/4)) False,
             Connect ((unit_light 0)\<lparr>ls_pdf := Fin (3/4)\<rparr>)]"
    by (simp add: sample_kg_def two_leaf_nodes_def split_def empty_traversal_def
        unit_light_def minus_fp_def Let_def rnd_values)
  show "map_option events
     (accum_light_tree_contribution (Suc (Suc 0)) (sample_kg (Fin 3) (Fin 1))
        (Fin (7549747 / 8388608)) (Fin (1/2)) 0 (Fin 1) True one3 sample_state sample_sd
        sample_sd empty_traversal)
     = Some [Enter 0 (Fin (7549747 / 8388608)) (Fin 1) True,
             Enter 8 (Fin (1258291 / 2097152)) (Fin (1/4)) False,
             Connect ((unit_light 1)\<lparr>ls_pdf := Fin (1/4)\<rparr>)]"
    by (simp add: sample_kg_def two_leaf_nodes_def split_def empty_traversal_def
        unit_light_def minus_fp_def Let_def rnd_values)
qed (auto simp: Let_def)

theorem stochastic_child_choice_witness:
  "accum_light_tree_contribution (Suc (Suc 0)) (sample_kg (Fin 3) (Fin 1))
     (Fin (13421773 / 134217728)) (Fin (1/2)) 0 (Fin 1) True one3 sample_state sample_sd
     sample_sd empty_traversal
   = accum_light_tree_contribution (Suc 0) (sample_kg (Fin 3) (Fin 1))
       (Fin (8947849 / 67108864)) (Fin (1/2)) 4 (Fin (3/4)) False one3 sample_state sample_sd
       sample_sd (empty_traversal\<lparr>events := [Enter 0 (Fin (13421773 / 134217728)) (Fin 1) True]\<rparr>)"
  using stochastic_child_choice [where kg = "sample_kg (Fin 3) (Fin 1)" and offset = 0
      and secondChildOffset = 2 and distribution_id = 0 and num_emitters = 2
      and can_split = True and sd = sample_sd and I_L = "Fin 3" and I_R = "Fin 1"
      and P_L = "Fin (3/4)" and depth = "Suc 0" and randu = "Fin (13421773 / 134217728)"
      and randv = "Fin (1/2)" and pdf_factor = "Fin 1" and throughput = one3
      and state = sample_state and emission_sd = sample_sd and t = empty_traversal]
  by (simp add: sample_kg_def two_leaf_nodes_def split_def empty_traversal_def rnd_values)

text \<open>
  Claim C7. At a leaf with one emitter, when the PDF of the light sample times the
  accumulated PDF factor is zero, the traversal returns: the radiance accumulator is the
  one it was given, the only new entry of the log is the invocation itself (no call of
  \<^verbatim>\<open>accum_light_contribution\<close>), and the counter of sampled lights is one higher.
\<close>

theorem leaf_zero_pdf_no_connection:
  assumes "update_parent_node kg offset = (- 1, distribution_id, 1)"
    and "feq (ls_pdf (light_point_sample kg randu randv (sd_time sd) (sd_P sd)
                 (bounce state) distribution_id) * pdf_factor) (Fin 0)"
  shows "accum_light_tree_contribution (Suc depth) kg randu randv offset pdf_factor
           can_split throughput state sd emission_sd t
         = Some (t\<lparr>events := events t @ [Enter offset randu pdf_factor can_split],
                   num_lights := num_lights t + 1\<rparr>)"
  using assms by (simp add: Let_def)

theorem leaf_zero_pdf_no_connection_witness:
  "accum_light_tree_contribution (Suc 0) zero_pdf_kg (Fin (1/2)) (Fin (1/2)) 4 (Fin (3/4))
     False one3 sample_state sample_sd sample_sd empty_traversal
   = Some (empty_traversal\<lparr>events := [Enter 4 (Fin (1/2)) (Fin (3/4)) False],
             num_lights := 1\<rparr>)"
  using leaf_zero_pdf_no_connection [of zero_pdf_kg 4 0 "Fin (1/2)" "Fin (1/2)" sample_sd
      sample_state "Fin (3/4)" 0 False one3 sample_sd empty_traversal]
  by (simp add: zero_pdf_kg_def sample_kg_def two_leaf_nodes_def empty_traversal_def)

text \<open>
  Claim C8. For a sample that passes \<^verbatim>\<open>direct_emission\<close>: when the shadow ray is
  blocked, \<^verbatim>\<open>accum_light_contribution\<close> leaves the visible radiance alone and adds
  throughput times scale times the evaluation over the PDF to the total-light channel;
  when it is not blocked, it adds that product times the transmittance to the visible
  radiance.
\<close>

theorem occlusion_dual_accounting:
  assumes "sample_nondegenerate kg sd ls state terminate"
    and "shadow_blocked kg sd emission_sd state (shadow_ray kg sd ls) = (blocked, shadow)"
  shows "(blocked \<longrightarrow>
            visible_radiance (accum_light_contribution kg sd emission_sd ls state L0
               terminate throughput scale) = visible_radiance L0 \<and>
            total_light (accum_light_contribution kg sd emission_sd ls state L0
               terminate throughput scale)
              = total_light L0 +
                muls throughput scale * divs (evaluate_bsdf_light kg sd ls) (ls_pdf ls)) \<and>
         (\<not> blocked \<longrightarrow>
            visible_radiance (accum_light_contribution kg sd emission_sd ls state L0
               terminate throughput scale)
              = visible_radiance L0 +
                muls throughput scale * divs (evaluate_bsdf_light kg sd ls) (ls_pdf ls)
                  * shadow)"
  using assms
  by (simp add: accum_light_contribution_def direct_emission_def
      path_radiance_accum_light_def path_radiance_accum_total_light_def)

theorem occlusion_dual_accounting_witness:
  "accum_light_contribution occluded_kg sample_sd sample_sd half_light sample_state dark
     (Fin 0) one3 (Fin 3)
     = \<lparr>visible_radiance = zero3, total_light = Float3 (Fin 6) (Fin 6) (Fin 6)\<rparr> \<and>
   visible_radiance (accum_light_contribution (sample_kg (Fin 3) (Fin 1)) sample_sd sample_sd
     half_light sample_state dark (Fin 0) one3 (Fin 3))
     = Float3 (Fin 6) (Fin 6) (Fin 6)"
proof -
  have occ: "accum_light_contribution occluded_kg sample_sd sample_sd half_light sample_state
      dark (Fin 0) one3 (Fin 3)
      = \<lparr>visible_radiance = zero3, total_light = Float3 (Fin 6) (Fin 6) (Fin 6)\<rparr>"
    using occlusion_dual_accounting [of occluded_kg sample_sd half_light sample_state "Fin 0"
        sample_sd True zero3 dark one3 "Fin 3"]
    by (simp add: occluded_kg_def sample_kg_def half_light_def dark_def one3_def zero3_def
        rnd_values)
  have vis: "visible_radiance (accum_light_contribution (sample_kg (Fin 3) (Fin 1)) sample_sd
      sample_sd half_light sample_state dark (Fin 0) one3 (Fin 3))
      = Float3 (Fin 6) (Fin 6) (Fin 6)"
    using occlusion_dual_accounting [of "sample_kg (Fin 3) (Fin 1)" sample_sd half_light
        sample_state "Fin 0" sample_sd False one3 dark one3 "Fin 3"]
    by (simp add: sample_kg_def half_light_def dark_def one3_def zero3_def rnd_values)
  show ?thesis using occ vis by simp
qed

text \<open>
  Claim C9, as stated, fails. A branched bounce that samples the PDF 2 on a path whose
  minimum PDF was 1/2 succeeds and leaves the minimum at 2, not at 1/2; and a bounce of
  the other function whose label is transparent succeeds and leaves the last-bounce PDF
  at its old value 0 although the sampled PDF is 2.
\<close>

theorem mis_bookkeeping_counterexample:
  "shader_bsdf_sample_closure (bounce_kg 2) sample_sd \<lparr>sample_weight = Fin 1\<rparr> (Fin 0) (Fin 0)
     = (2, one3, one3, (zero3, zero3), Fin 2) \<and>
   shader_bsdf_sample (bounce_kg 32) sample_sd (Fin 0) (Fin 0)
     = (32, one3, one3, (zero3, zero3), Fin 2) \<and>
   fst (kernel_branched_path_surface_bounce (bounce_kg 2) sample_sd \<lparr>sample_weight = Fin 1\<rparr>
          0 1 one3 sample_state undefined sample_ray (Fin 1)) = True \<and>
   min_ray_pdf (fst (snd (snd (kernel_branched_path_surface_bounce (bounce_kg 2) sample_sd
          \<lparr>sample_weight = Fin 1\<rparr> 0 1 one3 sample_state undefined sample_ray (Fin 1)))))
     = Fin 2 \<and>
   fminf (Fin 2) (min_ray_pdf sample_state) = Fin (1/2) \<and>
   fst (kernel_path_surface_bounce (bounce_kg 32) sample_sd one3 sample_state undefined
          sample_ray) = True \<and>
   ray_pdf (fst (snd (snd (kernel_path_surface_bounce (bounce_kg 32) sample_sd one3
          sample_state undefined sample_ray)))) = Fin 0"
  by (simp add: kernel_branched_path_surface_bounce_def kernel_path_surface_bounce_def
      bounce_kg_def sample_kg_def sample_sd_def sample_state_def has_flag_def one3_def
      zero3_def FLT_MAX_def)

text \<open>
  Claim C9, amended. Provided \<^verbatim>\<open>path_state_next\<close> leaves the two PDF fields alone, a
  successful BSDF bounce of \<^verbatim>\<open>kernel_path_surface_bounce\<close> sets the last-bounce PDF to
  the sampled PDF and the minimum PDF to the smaller of the sampled PDF and its previous
  value when the label is not transparent, and keeps both when it is. A successful
  bounce of \<^verbatim>\<open>kernel_branched_path_surface_bounce\<close> sets the last-bounce PDF to the
  sampled PDF and the minimum PDF to the smaller of the sampled PDF and \<^verbatim>\<open>FLT_MAX\<close>,
  whatever its previous value.
\<close>

theorem mis_bookkeeping:
  "(has_flag (sd_flag sd) (SD_BSDF kg) \<and> keeps_mis kg \<and>
    shader_bsdf_sample kg sd (fst (path_state_rng_2D kg state (PRNG_BSDF_U kg)))
      (snd (path_state_rng_2D kg state (PRNG_BSDF_U kg)))
      = (label, bsdf_eval, bsdf_omega_in, bsdf_domega_in, bsdf_pdf) \<and>
    \<not> (feq bsdf_pdf (Fin 0) \<or> bsdf_eval_is_zero kg bsdf_eval)
    \<longrightarrow> (case kernel_path_surface_bounce kg sd throughput state L_state ray of
           (ok, throughput', state', rest) \<Rightarrow>
             ok \<and>
             (if has_flag label (LABEL_TRANSPARENT kg)
              then ray_pdf state' = ray_pdf state \<and> min_ray_pdf state' = min_ray_pdf state
              else ray_pdf state' = bsdf_pdf \<and>
                   min_ray_pdf state' = fminf bsdf_pdf (min_ray_pdf state)))) \<and>
   (shader_bsdf_sample_closure kg sd sc
      (fst (path_branched_rng_2D kg (rng_hash state) state sample num_samples (PRNG_BSDF_U kg)))
      (snd (path_branched_rng_2D kg (rng_hash state) state sample num_samples (PRNG_BSDF_U kg)))
      = (label', bsdf_eval', bsdf_omega_in', bsdf_domega_in', bsdf_pdf') \<and>
    \<not> (feq bsdf_pdf' (Fin 0) \<or> bsdf_eval_is_zero kg bsdf_eval')
    \<longrightarrow> (case kernel_branched_path_surface_bounce kg sd sc sample num_samples throughput
                 state L_state ray sum_sample_weight of
           (ok, throughput', state', rest) \<Rightarrow>
             ok \<and> ray_pdf state' = bsdf_pdf' \<and> min_ray_pdf state' = fminf bsdf_pdf' FLT_MAX))"
  by (auto simp: kernel_path_surface_bounce_def kernel_branched_path_surface_bounce_def
      keeps_mis_def Let_def split: prod.splits)

theorem mis_bookkeeping_witness:
  "ray_pdf (fst (snd (snd (kernel_path_surface_bounce (bounce_kg 2) sample_sd one3
      sample_state undefined sample_ray)))) = Fin 2 \<and>
   min_ray_pdf (fst (snd (snd (kernel_path_surface_bounce (bounce_kg 2) sample_sd one3
      sample_state undefined sample_ray)))) = Fin (1/2) \<and>
   ray_pdf (fst (snd (snd (kernel_branched_path_surface_bounce (bounce_kg 2) sample_sd
      \<lparr>sample_weight = Fin 1\<rparr> 0 1 one3 sample_state undefined sample_ray (Fin 1)))))
     = Fin 2 \<and>
   min_ray_pdf (fst (snd (snd (kernel_branched_path_surface_bounce (bounce_kg 2) sample_sd
      \<lparr>sample_weight = Fin 1\<rparr> 0 1 one3 sample_state undefined sample_ray (Fin 1)))))
     = Fin 2"
proof -
  have k: "keeps_mis (bounce_kg 2)"
    by (simp add: keeps_mis_def bounce_kg_def sample_kg_def)
  have s: "has_flag (sd_flag sample_sd) (SD_BSDF (bounce_kg 2))"
    by (simp add: has_flag_def sample_sd_def bounce_kg_def sample_kg_def)
  have n: "\<not> has_flag 2 (LABEL_TRANSPARENT (bounce_kg 2))"
    by (simp add: has_flag_def bounce_kg_def sample_kg_def)
  have e: "\<not> bsdf_eval_is_zero (bounce_kg 2) one3"
    by (simp add: bounce_kg_def sample_kg_def one3_def zero3_def)
  have a: "shader_bsdf_sample (bounce_kg 2) sample_sd u v
      = (2, one3, one3, (zero3, zero3), Fin 2)" for u v
    by (simp add: bounce_kg_def)
  have b: "shader_bsdf_sample_closure (bounce_kg 2) sample_sd sc u v
      = (2, one3, one3, (zero3, zero3), Fin 2)" for u v sc
    by (simp add: bounce_kg_def)
  show ?thesis
    using mis_bookkeeping [where kg = "bounce_kg 2" and sd = sample_sd and state = sample_state
        and label = 2 and bsdf_eval = one3 and bsdf_omega_in = one3
        and bsdf_domega_in = "(zero3, zero3)" and bsdf_pdf = "Fin 2"
        and throughput = one3 and L_state = undefined and ray = sample_ray
        and sc = "\<lparr>sample_weight = Fin 1\<rparr>" and sample = 0 and num_samples = 1
        and label' = 2 and bsdf_eval' = one3 and bsdf_omega_in' = one3
        and bsdf_domega_in' = "(zero3, zero3)" and bsdf_pdf' = "Fin 2"
        and sum_sample_weight = "Fin 1"] k s n e a b
    by (auto simp: sample_state_def FLT_MAX_def split: prod.splits)
qed

text \<open>
  Claim C10. When the sampled BSDF PDF is zero or the BSDF evaluation is zero, each of the
  two bounce functions returns false and hands back the throughput, the path state, the
  radiance state and the ray it was given.
\<close>

theorem bounce_degenerate_unchanged:
  "(has_flag (sd_flag sd) (SD_BSDF kg) \<and>
    shader_bsdf_sample kg sd (fst (path_state_rng_2D kg state (PRNG_BSDF_U kg)))
      (snd (path_state_rng_2D kg state (PRNG_BSDF_U kg)))
      = (label, bsdf_eval, bsdf_omega_in, bsdf_domega_in, bsdf_pdf) \<and>
    (feq bsdf_pdf (Fin 0) \<or> bsdf_eval_is_zero kg bsdf_eval)
    \<longrightarrow> kernel_path_surface_bounce kg sd throughput state L_state ray
          = (False, throughput, state, L_state, ray)) \<and>
   (shader_bsdf_sample_closure kg sd sc
      (fst (path_branched_rng_2D kg (rng_hash state) state sample num_samples (PRNG_BSDF_U kg)))
      (snd (path_branched_rng_2D kg (rng_hash state) state sample num_samples (PRNG_BSDF_U kg)))
      = (label', bsdf_eval', bsdf_omega_in', bsdf_domega_in', bsdf_pdf') \<and>
    (feq bsdf_pdf' (Fin 0) \<or> bsdf_eval_is_zero kg bsdf_eval')
    \<longrightarrow> kernel_branched_path_surface_bounce kg sd sc sample num_samples throughput state
          L_state ray sum_sample_weight
          = (False, throughput, state, L_state, ray))"
  by (auto simp: kernel_path_surface_bounce_def kernel_branched_path_surface_bounce_def
      split: prod.splits)

theorem bounce_degenerate_unchanged_witness:
  "kernel_path_surface_bounce (sample_kg (Fin 3) (Fin 1)) sample_sd one3 sample_state
     undefined sample_ray
     = (False, one3, sample_state, undefined, sample_ray) \<and>
   kernel_branched_path_surface_bounce (sample_kg (Fin 3) (Fin 1)) sample_sd
     \<lparr>sample_weight = Fin 1\<rparr> 0 1 one3 sample_state undefined sample_ray (Fin 1)
     = (False, one3, sample_state, undefined, sample_ray)"
  using bounce_degenerate_unchanged [of sample_sd "sample_kg (Fin 3) (Fin 1)" sample_state
      2 one3 zero3 "(zero3, zero3)" "Fin 0" one3 undefined sample_ray
      "\<lparr>sample_weight = Fin 1\<rparr>" 0 1 2 one3 zero3 "(zero3, zero3)" "Fin 0" "Fin 1"]
  by (simp add: sample_kg_def sample_sd_def has_flag_def)

end
